theory Spec2Isabelle
  imports Complex_Main
begin

section \<open>Conventions of the embedding\<close>

text \<open>
  The three services of the trading core, \<^verbatim>\<open>FeatureEngine\<close>, \<^verbatim>\<open>AIOrchestrator\<close> and
  \<^verbatim>\<open>ProfitLockingEngine\<close>, are embedded shallowly, function by function.

  \<^item> A JavaScript \<^verbatim>\<open>number\<close> that carries a price, a size or a score is a \<^typ>\<open>real\<close>.
    Rounding and the non-finite values are outside the model: where the source divides
    by zero it yields \<^verbatim>\<open>Infinity\<close> or \<^verbatim>\<open>NaN\<close>, and the value of the model there means
    nothing. The places are named at the definitions; no statement below depends on them.
  \<^item> Millisecond clock readings (\<^verbatim>\<open>Date.now()\<close>) are \<^typ>\<open>int\<close> and are an explicit
    argument of every operation that reads the clock; one call reads one value.
  \<^item> An interface is a record. Field names that occur in several interfaces, or that
    clash with a constant of HOL, carry a suffix naming the interface
    (\<^verbatim>\<open>id\<close> of a position is \<open>id_pos\<close>, \<^verbatim>\<open>symbol\<close> of a signal is \<open>symbol_sig\<close>).
  \<^item> A \<^verbatim>\<open>Record<string, T>\<close> is a map \<open>string \<rightharpoonup> T\<close>; where the source iterates
    over its entries it is an association list in the order of \<^verbatim>\<open>Object.entries\<close>.
    Keys that name a property of \<^verbatim>\<open>Object.prototype\<close> are outside the model.
  \<^item> The \<^verbatim>\<open>Map<string, Position>\<close> of live positions is the list of its values in
    insertion order; the key of an entry is the \<open>id_pos\<close> of its value, as in the source,
    where the only insertion is \<^verbatim>\<open>positions.set(positionId, position)\<close>. That the keys
    of a map are pairwise different is the predicate \<open>wf_engine\<close>.
  \<^item> A \<^verbatim>\<open>TypeError\<close> raised by a property access on \<^verbatim>\<open>undefined\<close> is the value
    \<open>TypeError\<close>; an operation that can raise after it has written returns the state
    together with the optional error.
  \<^item> Console output is not modelled. Calls of the engine to the persistence service and
    to the exit callbacks are recorded in a log of effects; the callbacks are taken not to
    call back into the engine.
\<close>

datatype error = TypeError

subsection \<open>Numbers inside template strings\<close>

text \<open>
  The decimal digits of a natural number, pushed in front of an accumulator from the
  least significant one, and the text that a template string shows for an integer.
\<close>

definition digitChar :: "nat \<Rightarrow> char" where
  "digitChar d = ''0123456789'' ! d"

fun showNat :: "nat \<Rightarrow> string \<Rightarrow> string" where
  "showNat n acc =
     (let acc1 = digitChar (n mod 10) # acc
      in if n div 10 = 0 then acc1 else showNat (n div 10) acc1)"

declare showNat.simps [simp del]

definition numberToString :: "int \<Rightarrow> string" where
  "numberToString i = (if i < 0 then CHR ''-'' # showNat (nat (- i)) [] else showNat (nat i) [])"

section \<open>Signals\<close>

datatype Action = Buy | Sell | Hold

record TradingSignal =
  symbol_sig :: string
  action :: Action
  confidence_sig :: real
  strategy :: string
  price_sig :: real
  timestamp_sig :: int
  reasoning :: string

section \<open>ProfitLockingEngine\<close>

subsection \<open>Data\<close>

record TradingConfig =
  maxPositions :: real
  riskPerTrade :: real
  stopLossPercent :: real
  takeProfitMultiplier :: real
  atrPeriod :: real
  trailingStopPercent :: real

datatype Side = Long | Short

record Position =
  id_pos :: string
  symbol_pos :: string
  side :: Side
  size_pos :: real
  entryPrice :: real
  currentPrice :: real
  unrealizedPnL :: real
  unrealizedPnLPct :: real
  trailingStopPrice :: real
  takeProfitPrice :: real
  profitLockMethod :: string
  timeHeld :: string
  entryTime :: int
  edgeDecayScore :: real
  maxDrawdownFromPeak :: real
  peakPnL :: real
  atrValue :: real
  originalSignal :: TradingSignal

record ProfitLockConfig =
  method_plc :: string
  atrMultiplier :: real
  trailingPercent :: real
  partialProfitLevels :: "real list"
  timeBasedExitMinutes :: real
  edgeDecayThreshold :: real
  maxDrawdownPercent :: real

text \<open>What the engine hands to its collaborators (persistence service, exit callbacks).\<close>

datatype Effect =
    SavePosition Position string
  | UpdatePositionDb Position
  | ClosePositionDb Position string
  | ExitCallback Position string

record Engine =
  positions :: "Position list"
  priceHistory_pe :: "string \<rightharpoonup> real list"
  signalIdMap :: "string \<rightharpoonup> string"
  config :: TradingConfig
  effects :: "Effect list"

text \<open>The constructor: the defaults, overridden by the caller's partial configuration.\<close>

definition defaultTradingConfig :: TradingConfig where
  "defaultTradingConfig =
     \<lparr> maxPositions = 250, riskPerTrade = 0.02, stopLossPercent = 0.03,
       takeProfitMultiplier = 2.5, atrPeriod = 14, trailingStopPercent = 0.02 \<rparr>"

definition newEngine :: "TradingConfig \<Rightarrow> Engine" where
  "newEngine cfg =
     \<lparr> positions = [], priceHistory_pe = Map.empty, signalIdMap = Map.empty,
       config = cfg, effects = [] \<rparr>"

definition defaultConfigs :: "TradingConfig \<Rightarrow> string \<rightharpoonup> ProfitLockConfig" where
  "defaultConfigs cfg m =
    (if m = ''volatility_adaptive_trailing_stop'' then
       Some \<lparr> method_plc = ''volatility_adaptive_trailing_stop'',
              atrMultiplier = takeProfitMultiplier cfg,
              trailingPercent = trailingStopPercent cfg,
              partialProfitLevels = [], timeBasedExitMinutes = 0,
              edgeDecayThreshold = 0.1, maxDrawdownPercent = 0.15 \<rparr>
     else if m = ''partial_profit_scaling'' then
       Some \<lparr> method_plc = ''partial_profit_scaling'',
              atrMultiplier = takeProfitMultiplier cfg * 0.8,
              trailingPercent = trailingStopPercent cfg * 0.8,
              partialProfitLevels = [0.5, 0.75], timeBasedExitMinutes = 0,
              edgeDecayThreshold = 0.1, maxDrawdownPercent = 0.12 \<rparr>
     else if m = ''fixed_take_profit'' then
       Some \<lparr> method_plc = ''fixed_take_profit'',
              atrMultiplier = takeProfitMultiplier cfg * 0.6,
              trailingPercent = trailingStopPercent cfg * 1.2,
              partialProfitLevels = [], timeBasedExitMinutes = 0,
              edgeDecayThreshold = 0.1, maxDrawdownPercent = 0.20 \<rparr>
     else if m = ''time_based_stop'' then
       Some \<lparr> method_plc = ''time_based_stop'',
              atrMultiplier = takeProfitMultiplier cfg,
              trailingPercent = trailingStopPercent cfg,
              partialProfitLevels = [], timeBasedExitMinutes = 240,
              edgeDecayThreshold = 0.1, maxDrawdownPercent = 0.15 \<rparr>
     else if m = ''edge_decay_exit'' then
       Some \<lparr> method_plc = ''edge_decay_exit'',
              atrMultiplier = takeProfitMultiplier cfg * 1.2,
              trailingPercent = trailingStopPercent cfg * 1.5,
              partialProfitLevels = [], timeBasedExitMinutes = 0,
              edgeDecayThreshold = 0.05, maxDrawdownPercent = 0.18 \<rparr>
     else if m = ''drawdown_trailing_stop'' then
       Some \<lparr> method_plc = ''drawdown_trailing_stop'',
              atrMultiplier = takeProfitMultiplier cfg * 1.4,
              trailingPercent = trailingStopPercent cfg * 0.8,
              partialProfitLevels = [], timeBasedExitMinutes = 0,
              edgeDecayThreshold = 0.1, maxDrawdownPercent = 0.10 \<rparr>
     else None)"

subsection \<open>The map of live positions\<close>

definition lookup_pos :: "string \<Rightarrow> Position list \<rightharpoonup> Position" where
  "lookup_pos k ps = find (\<lambda>p. id_pos p = k) ps"

text \<open>\<^verbatim>\<open>positions.set(id, p)\<close>: an existing key keeps its place, a new key goes last.\<close>

definition set_pos :: "Position \<Rightarrow> Position list \<Rightarrow> Position list" where
  "set_pos p ps =
     (if id_pos p \<in> set (map id_pos ps)
      then map (\<lambda>q. if id_pos q = id_pos p then p else q) ps
      else ps @ [p])"

definition delete_pos :: "string \<Rightarrow> Position list \<Rightarrow> Position list" where
  "delete_pos k ps = filter (\<lambda>q. id_pos q \<noteq> k) ps"

text \<open>Assignments to the fields of a position object that is held by the map.\<close>

definition store_pos :: "Position \<Rightarrow> Position list \<Rightarrow> Position list" where
  "store_pos p ps = map (\<lambda>q. if id_pos q = id_pos p then p else q) ps"

subsection \<open>Opening a position\<close>

definition selectProfitLockMethod :: "TradingSignal \<Rightarrow> string" where
  "selectProfitLockMethod signal =
     (case map_of
        [(''scalping'', ''partial_profit_scaling''),
         (''momentum'', ''volatility_adaptive_trailing_stop''),
         (''trend_following'', ''volatility_adaptive_trailing_stop''),
         (''mean_reversion'', ''fixed_take_profit''),
         (''breakout'', ''volatility_adaptive_trailing_stop''),
         (''swing_trading'', ''drawdown_trailing_stop''),
         (''statistical_arbitrage'', ''edge_decay_exit''),
         (''contextual_bandits'', ''drawdown_trailing_stop'')] (strategy signal) of
        Some m \<Rightarrow> m
      | None \<Rightarrow> ''volatility_adaptive_trailing_stop'')"

text \<open>
  \<^verbatim>\<open>calculateATR\<close>: the loop runs over the indices \<open>1 \<le> i < min atrPeriod length\<close>.
  The final quotient has a zero divisor only when \<open>atrPeriod = 1\<close>, where JavaScript
  yields a non-finite number.
\<close>

definition calculateATR :: "Engine \<Rightarrow> string \<Rightarrow> real" where
  "calculateATR s symb =
     (let prices = (case priceHistory_pe s symb of Some ps \<Rightarrow> ps | None \<Rightarrow> []);
          n = length prices;
          period = atrPeriod (config s)
      in if real n < period
         then (if n > 0 then last prices * stopLossPercent (config s) else 0.01)
         else
           (let atrSum = sum_list (map (\<lambda>i. \<bar>prices ! i - prices ! (i - 1)\<bar>)
                                     (filter (\<lambda>i. real i < min period (real n)) [1..<n]))
            in atrSum / min (period - 1) (real n - 1)))"

definition calculateInitialStopPrice :: "TradingConfig \<Rightarrow> TradingSignal \<Rightarrow> real" where
  "calculateInitialStopPrice cfg signal =
     (let stopDistance = price_sig signal * stopLossPercent cfg
      in if action signal = Buy then price_sig signal - stopDistance
         else price_sig signal + stopDistance)"

definition calculateTakeProfitPrice :: "TradingSignal \<Rightarrow> ProfitLockConfig \<Rightarrow> real \<Rightarrow> real" where
  "calculateTakeProfitPrice signal plc atr =
     (let atrDistance = atr * atrMultiplier plc * 2
      in if action signal = Buy then price_sig signal + atrDistance
         else price_sig signal - atrDistance)"

text \<open>The object literal of \<^verbatim>\<open>addPosition\<close>: the new position at its entry.\<close>

definition newPosition ::
  "TradingConfig \<Rightarrow> TradingSignal \<Rightarrow> real \<Rightarrow> int \<Rightarrow> string \<Rightarrow> ProfitLockConfig \<Rightarrow> real \<Rightarrow> Position" where
  "newPosition cfg signal sz now m plc atr =
     \<lparr> id_pos = symbol_sig signal @ ''_'' @ numberToString now,
       symbol_pos = symbol_sig signal,
       side = (if action signal = Buy then Long else Short),
       size_pos = sz,
       entryPrice = price_sig signal,
       currentPrice = price_sig signal,
       unrealizedPnL = 0,
       unrealizedPnLPct = 0,
       trailingStopPrice = calculateInitialStopPrice cfg signal,
       takeProfitPrice = calculateTakeProfitPrice signal plc atr,
       profitLockMethod = m,
       timeHeld = ''0m'',
       entryTime = now,
       edgeDecayScore = 1.0,
       maxDrawdownFromPeak = 0,
       peakPnL = 0,
       atrValue = atr,
       originalSignal = signal \<rparr>"

text \<open>
  \<^verbatim>\<open>addPosition(signal, size, signalId?)\<close> at clock reading \<open>now\<close>. The result is the
  returned string (the empty string is the rejection) and the engine afterwards.
\<close>

definition addPosition ::
  "TradingSignal \<Rightarrow> real \<Rightarrow> string option \<Rightarrow> int \<Rightarrow> Engine \<Rightarrow> error + (string \<times> Engine)" where
  "addPosition signal sz signalId now s =
     (if real (length (positions s)) \<ge> maxPositions (config s) then Inr ([], s)
      else if length (filter (\<lambda>p. symbol_pos p = symbol_sig signal) (positions s)) \<ge> 3
      then Inr ([], s)
      else
        (let m = selectProfitLockMethod signal;
             atr = calculateATR s (symbol_sig signal)
         in case defaultConfigs (config s) m of
              None \<Rightarrow> Inl TypeError
            | Some plc \<Rightarrow>
               (let position = newPosition (config s) signal sz now m plc atr;
                    positionId = id_pos position;
                    s1 = s\<lparr> positions := set_pos position (positions s) \<rparr>;
                    s2 = (case signalId of
                            None \<Rightarrow> s1
                          | Some sid \<Rightarrow>
                              if sid = [] then s1
                              else s1\<lparr> signalIdMap := (signalIdMap s1)(positionId \<mapsto> sid),
                                      effects := effects s1 @ [SavePosition position sid] \<rparr>)
                in Inr (positionId, s2))))"

subsection \<open>Updating a position on a tick\<close>

definition calculateEdgeDecay :: "int \<Rightarrow> Position \<Rightarrow> real" where
  "calculateEdgeDecay now p =
     (let timeElapsed = now - entryTime p;
          hours = real_of_int timeElapsed / (1000 * 60 * 60);
          decayRate = 0.1
      in exp (- decayRate * hours))"

text \<open>
  \<^verbatim>\<open>updateTrailingStop\<close> reads \<^verbatim>\<open>config.trailingPercent\<close> of
  \<^verbatim>\<open>defaultConfigs[position.profitLockMethod]\<close>, a \<^verbatim>\<open>TypeError\<close> for an unknown method.
\<close>

definition updateTrailingStop :: "TradingConfig \<Rightarrow> Position \<Rightarrow> error + Position" where
  "updateTrailingStop cfg p =
     (case defaultConfigs cfg (profitLockMethod p) of
        None \<Rightarrow> Inl TypeError
      | Some plc \<Rightarrow>
          if side p = Long then
            (let newStop = currentPrice p * (1 - trailingPercent plc)
             in if newStop > trailingStopPrice p
                then Inr (p\<lparr> trailingStopPrice := newStop \<rparr>) else Inr p)
          else
            (let newStop = currentPrice p * (1 + trailingPercent plc)
             in if newStop < trailingStopPrice p
                then Inr (p\<lparr> trailingStopPrice := newStop \<rparr>) else Inr p))"

text \<open>
  The assignments of \<^verbatim>\<open>updatePosition\<close> to the position before the trailing stop is
  refreshed: price, profit and loss, peak, drawdown, time held, edge decay.
\<close>

definition updatePosition_fields :: "int \<Rightarrow> Position \<Rightarrow> real \<Rightarrow> Position" where
  "updatePosition_fields now p price =
     (let priceDiff = price - entryPrice p;
          pnl = (if side p = Long then priceDiff * size_pos p else - priceDiff * size_pos p);
          pnlPct = (pnl / (entryPrice p * size_pos p)) * 100;
          peak = (if pnl > peakPnL p then pnl else peakPnL p);
          drawdownFromPeak = (if peak > 0 then (peak - pnl) / peak else 0);
          clampedDrawdown = min (max 0 drawdownFromPeak) 5.0;
          timeElapsed = now - entryTime p;
          minutes = timeElapsed div 60000;
          hours = minutes div 60;
          p1 = p\<lparr> currentPrice := price,
                   unrealizedPnL := pnl,
                   unrealizedPnLPct := pnlPct,
                   peakPnL := peak,
                   maxDrawdownFromPeak := max (maxDrawdownFromPeak p) clampedDrawdown,
                   timeHeld := (if hours > 0
                                then numberToString hours @ ''h '' @ numberToString (minutes mod 60) @ ''m''
                                else numberToString minutes @ ''m'') \<rparr>
      in p1\<lparr> edgeDecayScore := calculateEdgeDecay now p1 \<rparr>)"

text \<open>The sliding window of prices kept per symbol by \<^verbatim>\<open>updatePosition\<close>.\<close>

definition pushPrice :: "TradingConfig \<Rightarrow> string \<Rightarrow> real \<Rightarrow> (string \<rightharpoonup> real list) \<Rightarrow> (string \<rightharpoonup> real list)" where
  "pushPrice cfg symb price h =
     (let old = (case h symb of Some ps \<Rightarrow> ps | None \<Rightarrow> []);
          pushed = old @ [price]
      in h(symb \<mapsto> (if real (length pushed) > atrPeriod cfg * 5 then tl pushed else pushed)))"

text \<open>
  \<^verbatim>\<open>updatePosition(position, currentPrice)\<close> on the engine: the position object in the map
  is mutated; when the trailing stop raises, the earlier assignments stay and the
  persistence call is not reached.
\<close>

definition updatePosition :: "int \<Rightarrow> Position \<Rightarrow> real \<Rightarrow> Engine \<Rightarrow> Engine \<times> error option" where
  "updatePosition now p price s =
     (let p1 = updatePosition_fields now p price;
          h = pushPrice (config s) (symbol_pos p) price (priceHistory_pe s)
      in case updateTrailingStop (config s) p1 of
           Inl e \<Rightarrow> (s\<lparr> positions := store_pos p1 (positions s), priceHistory_pe := h \<rparr>, Some e)
         | Inr p2 \<Rightarrow>
             (s\<lparr> positions := store_pos p2 (positions s), priceHistory_pe := h,
                 effects := effects s @ [UpdatePositionDb p2] \<rparr>, None))"

subsection \<open>Exit conditions\<close>

definition isTrailingStopTriggered :: "Position \<Rightarrow> bool" where
  "isTrailingStopTriggered p =
     (if side p = Long then currentPrice p \<le> trailingStopPrice p
      else currentPrice p \<ge> trailingStopPrice p)"

definition isTakeProfitTriggered :: "Position \<Rightarrow> bool" where
  "isTakeProfitTriggered p =
     (if side p = Long then currentPrice p \<ge> takeProfitPrice p
      else currentPrice p \<le> takeProfitPrice p)"

definition isTimeBasedExitTriggered :: "int \<Rightarrow> Position \<Rightarrow> ProfitLockConfig \<Rightarrow> bool" where
  "isTimeBasedExitTriggered now p plc =
     (if timeBasedExitMinutes plc = 0 then False
      else (let timeElapsed = now - entryTime p;
                minutes = real_of_int timeElapsed / 60000
            in minutes \<ge> timeBasedExitMinutes plc))"

fun join_reasons :: "string list \<Rightarrow> string" where
  "join_reasons [] = []"
| "join_reasons [r] = r"
| "join_reasons (r # rs) = r @ '', '' @ join_reasons rs"

text \<open>
  The reasons collected by \<^verbatim>\<open>checkExitConditions\<close>; the empty list when the position is
  younger than ten seconds. The first read of a field of the method's configuration is in
  \<^verbatim>\<open>isTimeBasedExitTriggered\<close>, after the age check.
\<close>

definition exitReasons :: "TradingConfig \<Rightarrow> int \<Rightarrow> Position \<Rightarrow> error + string list" where
  "exitReasons cfg now p =
     (let positionAge = now - entryTime p
      in if positionAge < 10000 then Inr []
         else case defaultConfigs cfg (profitLockMethod p) of
                None \<Rightarrow> Inl TypeError
              | Some plc \<Rightarrow>
                  Inr ((if isTrailingStopTriggered p then [''Trailing stop triggered''] else [])
                     @ (if isTakeProfitTriggered p then [''Take profit reached''] else [])
                     @ (if isTimeBasedExitTriggered now p plc then [''Time-based exit''] else [])
                     @ (if edgeDecayScore p < edgeDecayThreshold plc \<and> positionAge > 60000
                        then [''Edge decay threshold reached''] else [])
                     @ (if maxDrawdownFromPeak p > maxDrawdownPercent plc \<and> unrealizedPnL p < 0
                        then [''Maximum drawdown exceeded''] else [])))"

definition exitPosition :: "Position \<Rightarrow> string \<Rightarrow> Engine \<Rightarrow> Engine" where
  "exitPosition p reason s =
     s\<lparr> effects := effects s @ [ClosePositionDb p reason, ExitCallback p reason],
        positions := delete_pos (id_pos p) (positions s),
        signalIdMap := (signalIdMap s)(id_pos p := None) \<rparr>"

definition checkExitConditions :: "int \<Rightarrow> Position \<Rightarrow> Engine \<Rightarrow> Engine \<times> error option" where
  "checkExitConditions now p s =
     (case exitReasons (config s) now p of
        Inl e \<Rightarrow> (s, Some e)
      | Inr reasons \<Rightarrow>
          if length reasons > 0 then (exitPosition p (join_reasons reasons) s, None)
          else (s, None))"

subsection \<open>The tick\<close>

text \<open>A price is used only when it is truthy: present and not zero.\<close>

definition truthyPrice :: "(string \<rightharpoonup> real) \<Rightarrow> string \<Rightarrow> bool" where
  "truthyPrice currentPrices symb = (case currentPrices symb of Some v \<Rightarrow> v \<noteq> 0 | None \<Rightarrow> False)"

text \<open>The body of the \<^verbatim>\<open>forEach\<close> callback for the entry with key \<open>k\<close>.\<close>

definition tickPosition :: "(string \<rightharpoonup> real) \<Rightarrow> int \<Rightarrow> string \<Rightarrow> Engine \<Rightarrow> Engine \<times> error option" where
  "tickPosition currentPrices now k s =
     (case lookup_pos k (positions s) of
        None \<Rightarrow> (s, None)
      | Some p \<Rightarrow>
          if truthyPrice currentPrices (symbol_pos p) then
            (case updatePosition now p (the (currentPrices (symbol_pos p))) s of
               (s1, Some e) \<Rightarrow> (s1, Some e)
             | (s1, None) \<Rightarrow>
                 (case lookup_pos k (positions s1) of
                    None \<Rightarrow> (s1, None)
                  | Some p1 \<Rightarrow> checkExitConditions now p1 s1))
          else (s, None))"

text \<open>\<^verbatim>\<open>Map.forEach\<close> over the keys present when the tick starts; an exception ends it.\<close>

fun forEachPosition :: "(string \<rightharpoonup> real) \<Rightarrow> int \<Rightarrow> string list \<Rightarrow> Engine \<Rightarrow> Engine \<times> error option" where
  "forEachPosition currentPrices now [] s = (s, None)"
| "forEachPosition currentPrices now (k # ks) s =
     (case tickPosition currentPrices now k s of
        (s1, Some e) \<Rightarrow> (s1, Some e)
      | (s1, None) \<Rightarrow> forEachPosition currentPrices now ks s1)"

definition updatePositions :: "(string \<rightharpoonup> real) \<Rightarrow> int \<Rightarrow> Engine \<Rightarrow> Engine \<times> error option" where
  "updatePositions currentPrices now s =
     forEachPosition currentPrices now (map id_pos (positions s)) s"


text \<open>The keys of the map of live positions are pairwise different.\<close>

definition wf_engine :: "Engine \<Rightarrow> bool" where
  "wf_engine s = distinct (map id_pos (positions s))"

section \<open>FeatureEngine\<close>

subsection \<open>Data\<close>

record TickerData =
  symbol_tk :: string
  price_tk :: real
  change24h :: real
  volume :: real
  timestamp_tk :: int

record OrderBookData =
  symbol_ob :: string
  bids :: "(real \<times> real) list"
  asks :: "(real \<times> real) list"
  timestamp_ob :: int

text \<open>
  \<^verbatim>\<open>MarketData\<close>: the two records are association lists in the order in which
  \<^verbatim>\<open>Object.entries\<close> enumerates them.
\<close>

record MarketData =
  tickers :: "(string \<times> TickerData) list"
  orderBooks :: "(string \<times> OrderBookData) list"
  lastUpdate :: int

record FeatureSet =
  vvix :: real
  ofi :: real
  vpin :: real
  correlation :: real
  liquidity :: real
  volatility :: real
  momentum :: real
  meanReversion :: real
  trend :: real
  timestamp_fs :: int

datatype RegimeType = Trending | Ranging | Volatile | Stable

record MarketRegime =
  type_r :: RegimeType
  confidence_r :: real
  features_r :: FeatureSet

record FeatureEngine =
  priceHistory :: "string \<rightharpoonup> real list"
  volumeHistory :: "string \<rightharpoonup> real list"
  orderBookHistory :: "string \<rightharpoonup> OrderBookData list"

definition maxHistoryLength :: nat where
  "maxHistoryLength = 200"

definition newFeatureEngine :: FeatureEngine where
  "newFeatureEngine =
     \<lparr> priceHistory = Map.empty, volumeHistory = Map.empty, orderBookHistory = Map.empty \<rparr>"

subsection \<open>Feeding the buffers\<close>

text \<open>
  The callback of the first \<^verbatim>\<open>forEach\<close> of \<^verbatim>\<open>updateData\<close>, for one ticker entry. The
  three buffers are created when the symbol has no price buffer; \<^verbatim>\<open>push\<close> on a missing
  volume buffer is a \<^verbatim>\<open>TypeError\<close>, raised after the price has been pushed.
\<close>

definition updateTicker :: "string \<times> TickerData \<Rightarrow> FeatureEngine \<Rightarrow> FeatureEngine \<times> error option" where
  "updateTicker entry s =
     (let symbol = fst entry; ticker = snd entry;
          s1 = (if priceHistory s symbol = None
                then s\<lparr> priceHistory := (priceHistory s)(symbol \<mapsto> []),
                        volumeHistory := (volumeHistory s)(symbol \<mapsto> []),
                        orderBookHistory := (orderBookHistory s)(symbol \<mapsto> []) \<rparr>
                else s);
          prices = (case priceHistory s1 symbol of Some ps \<Rightarrow> ps | None \<Rightarrow> []) @ [price_tk ticker];
          s2 = s1\<lparr> priceHistory := (priceHistory s1)(symbol \<mapsto> prices) \<rparr>
      in case volumeHistory s2 symbol of
           None \<Rightarrow> (s2, Some TypeError)
         | Some vs \<Rightarrow>
            (let volumes = vs @ [volume ticker];
                 s3 = s2\<lparr> volumeHistory := (volumeHistory s2)(symbol \<mapsto> volumes) \<rparr>
             in if length prices > maxHistoryLength
                then (s3\<lparr> priceHistory := (priceHistory s3)(symbol \<mapsto> tl prices),
                          volumeHistory := (volumeHistory s3)(symbol \<mapsto> tl volumes) \<rparr>, None)
                else (s3, None)))"

text \<open>
  The callback of the second \<^verbatim>\<open>forEach\<close>, for one order-book entry:
  \<^verbatim>\<open>this.orderBookHistory[symbol].push(orderBook)\<close> with no creation of a missing buffer.
\<close>

definition updateOrderBook :: "string \<times> OrderBookData \<Rightarrow> FeatureEngine \<Rightarrow> FeatureEngine \<times> error option" where
  "updateOrderBook entry s =
     (let symbol = fst entry; orderBook = snd entry
      in case orderBookHistory s symbol of
           None \<Rightarrow> (s, Some TypeError)
         | Some obs \<Rightarrow>
            (let pushed = obs @ [orderBook]
             in (s\<lparr> orderBookHistory := (orderBookHistory s)
                       (symbol \<mapsto> (if length pushed > maxHistoryLength then tl pushed else pushed)) \<rparr>,
                 None)))"

text \<open>\<^verbatim>\<open>forEach\<close> over the entries; an exception ends the loop and the call.\<close>

fun forEachEntry :: "('a \<Rightarrow> FeatureEngine \<Rightarrow> FeatureEngine \<times> error option) \<Rightarrow> 'a list
                     \<Rightarrow> FeatureEngine \<Rightarrow> FeatureEngine \<times> error option" where
  "forEachEntry f [] s = (s, None)"
| "forEachEntry f (x # xs) s =
     (case f x s of
        (s1, Some e) \<Rightarrow> (s1, Some e)
      | (s1, None) \<Rightarrow> forEachEntry f xs s1)"

definition updateData :: "MarketData \<Rightarrow> FeatureEngine \<Rightarrow> FeatureEngine \<times> error option" where
  "updateData marketData s =
     (case forEachEntry updateTicker (tickers marketData) s of
        (s1, Some e) \<Rightarrow> (s1, Some e)
      | (s1, None) \<Rightarrow> forEachEntry updateOrderBook (orderBooks marketData) s1)"

definition cleanupOldSymbols :: "string list \<Rightarrow> FeatureEngine \<Rightarrow> FeatureEngine" where
  "cleanupOldSymbols activeSymbols s =
     \<lparr> priceHistory = (\<lambda>k. if priceHistory s k \<noteq> None \<and> k \<notin> set activeSymbols then None
                            else priceHistory s k),
       volumeHistory = (\<lambda>k. if priceHistory s k \<noteq> None \<and> k \<notin> set activeSymbols then None
                             else volumeHistory s k),
       orderBookHistory = (\<lambda>k. if priceHistory s k \<noteq> None \<and> k \<notin> set activeSymbols then None
                                else orderBookHistory s k) \<rparr>"

subsection \<open>Statistics\<close>

text \<open>\<^verbatim>\<open>xs.slice(-n)\<close> and \<^verbatim>\<open>xs.slice(a, b)\<close> for indices inside the array.\<close>

definition lastN :: "nat \<Rightarrow> 'a list \<Rightarrow> 'a list" where
  "lastN n xs = drop (length xs - n) xs"

definition slice :: "nat \<Rightarrow> nat \<Rightarrow> 'a list \<Rightarrow> 'a list" where
  "slice a b xs = take (b - a) (drop a xs)"

fun calculateReturns :: "real list \<Rightarrow> real list" where
  "calculateReturns (a # b # rest) =
     (if a > 0 then [(b - a) / a] else []) @ calculateReturns (b # rest)"
| "calculateReturns _ = []"

definition standardDeviation :: "real list \<Rightarrow> real" where
  "standardDeviation vals =
     (if length vals = 0 then 0
      else (let mean = sum_list vals / real (length vals);
                variance = sum_list (map (\<lambda>v. (v - mean) ^ 2) vals) / real (length vals)
            in sqrt variance))"

definition pearsonCorrelation :: "real list \<Rightarrow> real list \<Rightarrow> real" where
  "pearsonCorrelation x y =
     (if length x \<noteq> length y \<or> length x = 0 then 0
      else (let n = real (length x);
                sumX = sum_list x;
                sumY = sum_list y;
                sumXY = sum_list (map (\<lambda>(a, b). a * b) (zip x y));
                sumXX = sum_list (map (\<lambda>a. a * a) x);
                sumYY = sum_list (map (\<lambda>b. b * b) y);
                numerator = n * sumXY - sumX * sumY;
                denominator = sqrt ((n * sumXX - sumX * sumX) * (n * sumYY - sumY * sumY))
            in if denominator \<noteq> 0 then numerator / denominator else 0))"

subsection \<open>The nine features\<close>

definition calculateVVIX :: "FeatureEngine \<Rightarrow> string \<Rightarrow> real" where
  "calculateVVIX s symbol =
     (case priceHistory s symbol of
        None \<Rightarrow> 0
      | Some prices \<Rightarrow>
          if length prices < 20 then 0
          else (let returns = calculateReturns prices;
                    volatilities = map (\<lambda>i. standardDeviation (slice (i - 10) i returns))
                                       [10..<length returns]
                in if length volatilities > 0 then standardDeviation volatilities else 0))"

definition sumVolumes :: "(real \<times> real) list \<Rightarrow> real" where
  "sumVolumes levels = sum_list (map snd levels)"

text \<open>
  \<^verbatim>\<open>calculateOFI\<close> reads \<^verbatim>\<open>orderBooks.length\<close> without a guard: a \<^verbatim>\<open>TypeError\<close> when
  the symbol has no order-book buffer.
\<close>

definition calculateOFI :: "FeatureEngine \<Rightarrow> string \<Rightarrow> error + real" where
  "calculateOFI s symbol =
     (case orderBookHistory s symbol of
        None \<Rightarrow> Inl TypeError
      | Some books \<Rightarrow>
          if length books < 2 then Inr 0
          else (let latest = books ! (length books - 1);
                    previous = books ! (length books - 2);
                    bidVolume = sumVolumes (bids latest);
                    askVolume = sumVolumes (asks latest);
                    prevBidVolume = sumVolumes (bids previous);
                    prevAskVolume = sumVolumes (asks previous);
                    bidFlow = bidVolume - prevBidVolume;
                    askFlow = askVolume - prevAskVolume
                in Inr ((bidFlow - askFlow) / (bidFlow + askFlow + 1 / 10 ^ 8))))"

text \<open>
  \<^verbatim>\<open>calculateVPIN\<close> evaluates \<^verbatim>\<open>volumes.length < 20 || prices.length < 20\<close> from left
  to right: a missing volume buffer raises, a missing price buffer raises only when the
  volume buffer holds twenty entries.
\<close>

definition calculateVPIN :: "FeatureEngine \<Rightarrow> string \<Rightarrow> error + real" where
  "calculateVPIN s symbol =
     (case volumeHistory s symbol of
        None \<Rightarrow> Inl TypeError
      | Some volumes \<Rightarrow>
          if length volumes < 20 then Inr 0
          else (case priceHistory s symbol of
                  None \<Rightarrow> Inl TypeError
                | Some prices \<Rightarrow>
                    if length prices < 20 then Inr 0
                    else (let idx = [1..<min (length volumes) (length prices)];
                              buyVolume = sum_list (map (\<lambda>i. volumes ! i)
                                            (filter (\<lambda>i. prices ! i - prices ! (i - 1) > 0) idx));
                              sellVolume = sum_list (map (\<lambda>i. volumes ! i)
                                            (filter (\<lambda>i. \<not> prices ! i - prices ! (i - 1) > 0) idx));
                              totalVolume = buyVolume + sellVolume
                          in Inr (if totalVolume > 0 then \<bar>buyVolume - sellVolume\<bar> / totalVolume
                                  else 0))))"

definition calculateCorrelation :: "FeatureEngine \<Rightarrow> string \<Rightarrow> real" where
  "calculateCorrelation s symbol =
     (let btcSymbol = ''BTCUSDT''
      in if symbol = btcSymbol then 0
         else case (priceHistory s symbol, priceHistory s btcSymbol) of
                (Some prices, Some btcPrices) \<Rightarrow>
                  if length prices < 20 \<or> length btcPrices < 20 then 0
                  else (let len = min (min (length prices) (length btcPrices)) 20;
                            priceReturns = calculateReturns (lastN len prices);
                            btcReturns = calculateReturns (lastN len btcPrices)
                        in pearsonCorrelation priceReturns btcReturns)
              | _ \<Rightarrow> 0)"

definition calculateLiquidity :: "FeatureEngine \<Rightarrow> string \<Rightarrow> real" where
  "calculateLiquidity s symbol =
     (case orderBookHistory s symbol of
        None \<Rightarrow> 0
      | Some books \<Rightarrow>
          if length books = 0 then 0
          else (let latest = books ! (length books - 1);
                    bestBid = (case bids latest of [] \<Rightarrow> 0 | (p, v) # _ \<Rightarrow> p);
                    bestAsk = (case asks latest of [] \<Rightarrow> 0 | (p, v) # _ \<Rightarrow> p);
                    spread = bestAsk - bestBid;
                    midPrice = (bestBid + bestAsk) / 2;
                    bidDepth = sumVolumes (take 10 (bids latest));
                    askDepth = sumVolumes (take 10 (asks latest));
                    totalDepth = bidDepth + askDepth;
                    spreadScore = (if midPrice > 0 then 1 / (1 + spread / midPrice) else 0);
                    depthScore = min (totalDepth / 1000) 1
                in (spreadScore + depthScore) / 2))"

definition calculateVolatility :: "FeatureEngine \<Rightarrow> string \<Rightarrow> real" where
  "calculateVolatility s symbol =
     (case priceHistory s symbol of
        None \<Rightarrow> 0
      | Some prices \<Rightarrow>
          if length prices < 2 then 0
          else standardDeviation (calculateReturns prices))"

definition calculateMomentum :: "FeatureEngine \<Rightarrow> string \<Rightarrow> real" where
  "calculateMomentum s symbol =
     (case priceHistory s symbol of
        None \<Rightarrow> 0
      | Some prices \<Rightarrow>
          if length prices < 4 then 0
          else (let recent = lastN 2 prices;
                    older = slice (length prices - 4) (length prices - 2) prices;
                    recentAvg = sum_list recent / real (length recent);
                    olderAvg = sum_list older / real (length older)
                in if olderAvg > 0 then (recentAvg - olderAvg) / olderAvg else 0))"

definition calculateMeanReversion :: "FeatureEngine \<Rightarrow> string \<Rightarrow> real" where
  "calculateMeanReversion s symbol =
     (case priceHistory s symbol of
        None \<Rightarrow> 0
      | Some prices \<Rightarrow>
          if length prices < 3 then 0
          else (let mean = sum_list prices / real (length prices);
                    currentPrice = prices ! (length prices - 1);
                    deviation = \<bar>currentPrice - mean\<bar> / mean
                in min (deviation * 2) 1))"

definition calculateTrend :: "FeatureEngine \<Rightarrow> string \<Rightarrow> real" where
  "calculateTrend s symbol =
     (case priceHistory s symbol of
        None \<Rightarrow> 0
      | Some prices \<Rightarrow>
          if length prices < 10 then 0
          else (let n = min (length prices) 20;
                    recentPrices = lastN n prices;
                    idx = [0..<length recentPrices];
                    sumX = sum_list (map real idx);
                    sumY = sum_list (map (\<lambda>i. recentPrices ! i) idx);
                    sumXY = sum_list (map (\<lambda>i. real i * recentPrices ! i) idx);
                    sumXX = sum_list (map (\<lambda>i. real i * real i) idx);
                    slope = (real n * sumXY - sumX * sumY) / (real n * sumXX - sumX * sumX);
                    avgPrice = sumY / real n
                in if avgPrice > 0 then slope / avgPrice else 0))"

subsection \<open>Extraction and regime\<close>

text \<open>
  \<^verbatim>\<open>extractFeatures(symbol)\<close> at clock reading \<open>now\<close>: \<open>Inr None\<close> is the returned
  \<^verbatim>\<open>null\<close>, \<open>Inl TypeError\<close> the exception of a feature that reads a missing buffer.
\<close>

definition extractFeatures :: "FeatureEngine \<Rightarrow> string \<Rightarrow> int \<Rightarrow> error + FeatureSet option" where
  "extractFeatures s symbol now =
     (case priceHistory s symbol of
        None \<Rightarrow> Inr None
      | Some prices \<Rightarrow>
          if length prices < 10 then Inr None
          else (case calculateOFI s symbol of
                  Inl e \<Rightarrow> Inl e
                | Inr ofiValue \<Rightarrow>
                   (case calculateVPIN s symbol of
                      Inl e \<Rightarrow> Inl e
                    | Inr vpinValue \<Rightarrow>
                        Inr (Some \<lparr> vvix = calculateVVIX s symbol,
                                    ofi = ofiValue,
                                    vpin = vpinValue,
                                    correlation = calculateCorrelation s symbol,
                                    liquidity = calculateLiquidity s symbol,
                                    volatility = calculateVolatility s symbol,
                                    momentum = calculateMomentum s symbol,
                                    meanReversion = calculateMeanReversion s symbol,
                                    trend = calculateTrend s symbol,
                                    timestamp_fs = now \<rparr>))))"

text \<open>
  The decision list of \<^verbatim>\<open>detectRegime\<close>. The call that forwards the result to the
  persistence service is asynchronous and its failure is only logged; it does not
  influence the returned regime.
\<close>

definition classifyRegime :: "FeatureSet \<Rightarrow> MarketRegime" where
  "classifyRegime features =
     (if volatility features > 0.7 then
        \<lparr> type_r = Volatile, confidence_r = volatility features, features_r = features \<rparr>
      else if \<bar>trend features\<bar> > 0.6 then
        \<lparr> type_r = Trending, confidence_r = \<bar>trend features\<bar>, features_r = features \<rparr>
      else if meanReversion features > 0.6 then
        \<lparr> type_r = Ranging, confidence_r = meanReversion features, features_r = features \<rparr>
      else
        \<lparr> type_r = Stable, confidence_r = 0.5, features_r = features \<rparr>)"


text \<open>A history of calls on one engine, and the engine they leave.\<close>

datatype FeatureOp = UpdateData MarketData | CleanupOldSymbols "string list"

fun applyFeatureOp :: "FeatureOp \<Rightarrow> FeatureEngine \<Rightarrow> FeatureEngine" where
  "applyFeatureOp (UpdateData marketData) s = fst (updateData marketData s)"
| "applyFeatureOp (CleanupOldSymbols activeSymbols) s = cleanupOldSymbols activeSymbols s"

fun runFeatureOps :: "FeatureOp list \<Rightarrow> FeatureEngine \<Rightarrow> FeatureEngine" where
  "runFeatureOps [] s = s"
| "runFeatureOps (op1 # ops) s = runFeatureOps ops (applyFeatureOp op1 s)"

text \<open>
  The number of price samples recorded for a symbol by a history of calls: every ticker
  entry for the symbol records one sample, and a cleanup that does not list the symbol as
  active forgets them.
\<close>

fun recordedAfter :: "FeatureOp \<Rightarrow> string \<Rightarrow> nat \<Rightarrow> nat" where
  "recordedAfter (UpdateData marketData) symbol c =
     c + length (filter (\<lambda>entry. fst entry = symbol) (tickers marketData))"
| "recordedAfter (CleanupOldSymbols activeSymbols) symbol c =
     (if symbol \<in> set activeSymbols then c else 0)"

fun recordedFrom :: "nat \<Rightarrow> FeatureOp list \<Rightarrow> string \<Rightarrow> nat" where
  "recordedFrom c [] symbol = c"
| "recordedFrom c (op1 # ops) symbol = recordedFrom (recordedAfter op1 symbol c) ops symbol"

definition recorded :: "FeatureOp list \<Rightarrow> string \<Rightarrow> nat" where
  "recorded ops symbol = recordedFrom 0 ops symbol"

text \<open>The number of prices held for a symbol, and the invariant of the three buffers.\<close>

definition priceCount :: "FeatureEngine \<Rightarrow> string \<Rightarrow> nat" where
  "priceCount s symbol = (case priceHistory s symbol of None \<Rightarrow> 0 | Some prices \<Rightarrow> length prices)"

definition wf_features :: "FeatureEngine \<Rightarrow> bool" where
  "wf_features s \<longleftrightarrow>
     (\<forall>k. priceHistory s k \<noteq> None \<longrightarrow> volumeHistory s k \<noteq> None \<and> orderBookHistory s k \<noteq> None)"

section \<open>AIOrchestrator\<close>

subsection \<open>Data\<close>

record BanditArm =
  strategyId :: string
  wins :: real
  trials :: real
  alpha :: real
  beta :: real

record OrchestratorConfig =
  learningRate :: real
  explorationRate :: real
  minConfidenceThreshold :: real
  maxSignalsPerSymbol :: real
  signalCooldownMs :: real

text \<open>
  The state of the orchestrator that strategy selection and signal generation read and
  write. The map of arms is the list of its values in insertion order, keyed by
  \<open>strategyId\<close>. The map of strategies, with the performance history that only
  \<^verbatim>\<open>updateReward\<close> reads and writes, is left out.
\<close>

record Orchestrator =
  banditArms :: "BanditArm list"
  recentSignals :: "TradingSignal list"
  config_o :: OrchestratorConfig
  lastSignalTime :: "string \<rightharpoonup> int"

definition defaultOrchestratorConfig :: OrchestratorConfig where
  "defaultOrchestratorConfig =
     \<lparr> learningRate = 0.015, explorationRate = 0.08, minConfidenceThreshold = 0.25,
       maxSignalsPerSymbol = 2, signalCooldownMs = 30000 \<rparr>"

definition strategyIds :: "string list" where
  "strategyIds =
     [''trend_following'', ''swing_trading'', ''momentum'', ''mean_reversion'', ''breakout'',
      ''scalping'', ''statistical_arbitrage'', ''contextual_bandits'']"

definition initializeBandits :: "BanditArm list" where
  "initializeBandits =
     map (\<lambda>k. \<lparr> strategyId = k, wins = 1, trials = 1, alpha = 1, beta = 1 \<rparr>) strategyIds"

definition newOrchestrator :: "OrchestratorConfig \<Rightarrow> Orchestrator" where
  "newOrchestrator cfg =
     \<lparr> banditArms = initializeBandits, recentSignals = [], config_o = cfg,
       lastSignalTime = Map.empty \<rparr>"

subsection \<open>The random source\<close>

text \<open>
  \<^verbatim>\<open>Math.random()\<close> is the only source of randomness of the orchestrator. A run is given
  the list of the successive results of \<^verbatim>\<open>Math.random()\<close>, numbers of \<open>[0, 1)\<close>; every
  sampling function takes the draws not yet consumed and returns its value with the draws
  left, or \<open>None\<close> when it asks for more draws than the list holds. The rejection loop of
  the gamma sampler consumes at least two draws per round, so it is a total function of
  the list. On a draw outside \<open>[0, 1)\<close> the model means nothing.
\<close>

text \<open>
  \<^verbatim>\<open>normalSample\<close>: the Box-Muller transform \<^verbatim>\<open>sqrt(-2 log u1) * cos(2 pi u2)\<close> of two
  draws. At \<open>u1 = 0\<close> the logarithm is \<^verbatim>\<open>-Infinity\<close> and the square root \<^verbatim>\<open>Infinity\<close>, so
  the product is \<^verbatim>\<open>Infinity\<close>, \<^verbatim>\<open>-Infinity\<close> or, for a cosine that is zero, \<^verbatim>\<open>NaN\<close>; these
  three results are values of their own. (In floating point the cosine of a quarter turn
  is a tiny number that is not zero; rounding is outside the model.)
\<close>

datatype normal = Finite real | PlusInfinity | MinusInfinity | NotANumber

definition boxMuller :: "real \<Rightarrow> real \<Rightarrow> normal" where
  "boxMuller u1 u2 =
     (if u1 = 0 then
        (if cos (2 * pi * u2) > 0 then PlusInfinity
         else if cos (2 * pi * u2) < 0 then MinusInfinity
         else NotANumber)
      else Finite (sqrt (- 2 * ln u1) * cos (2 * pi * u2)))"

definition normalSample :: "real list \<Rightarrow> (normal \<times> real list) option" where
  "normalSample rs = (case rs of u1 # u2 # rest \<Rightarrow> Some (boxMuller u1 u2, rest) | _ \<Rightarrow> None)"

text \<open>
  The \<^verbatim>\<open>while (true)\<close> loop of \<^verbatim>\<open>gammaSample\<close> for a shape of at least one, where
  \<open>d = shape - 1 / 3\<close> and \<open>c = 1 / sqrt (9 * d)\<close> are positive. A round draws a normal
  sample \<open>x\<close> until \<open>v = 1 + c * x\<close> is not \<open>\<le> 0\<close>, then one uniform draw \<open>u\<close> for the two
  acceptance tests; a rejected round starts the loop again.

  \<^item> \<open>x = -Infinity\<close>: \<open>v\<close> is \<^verbatim>\<open>-Infinity\<close>, the inner loop draws again.
  \<^item> \<open>x = Infinity\<close> or \<open>NaN\<close>: \<open>v <= 0\<close> is false, \<open>u\<close> is drawn, the right-hand sides of
    both tests are \<^verbatim>\<open>-Infinity\<close> or \<^verbatim>\<open>NaN\<close>, both tests are false and the round is rejected.
  \<^item> \<open>u = 0\<close> in the second test: \<^verbatim>\<open>Math.log(0)\<close> is \<^verbatim>\<open>-Infinity\<close>, below the finite
    right-hand side, and the round is accepted.
\<close>

fun gammaLoop :: "real \<Rightarrow> real \<Rightarrow> real list \<Rightarrow> (real \<times> real list) option" where
  "gammaLoop d c (u1 # u2 # rs1) =
     (case boxMuller u1 u2 of
        MinusInfinity \<Rightarrow> gammaLoop d c rs1
      | PlusInfinity \<Rightarrow> (case rs1 of [] \<Rightarrow> None | u # rs2 \<Rightarrow> gammaLoop d c rs2)
      | NotANumber \<Rightarrow> (case rs1 of [] \<Rightarrow> None | u # rs2 \<Rightarrow> gammaLoop d c rs2)
      | Finite x \<Rightarrow>
         (let v = 1 + c * x
          in if v \<le> 0 then gammaLoop d c rs1
             else (case rs1 of
                     [] \<Rightarrow> None
                   | u # rs2 \<Rightarrow>
                      (let v3 = v * v * v
                       in if u < 1 - 0.0331 * x * x * x * x then Some (d * v3, rs2)
                          else if u = 0 \<or> ln u < 0.5 * x * x + d * (1 - v3 + ln v3)
                          then Some (d * v3, rs2)
                          else gammaLoop d c rs2))))"
| "gammaLoop d c rs = None"

text \<open>
  \<^verbatim>\<open>gammaSample(shape)\<close>. Below one it samples at \<open>shape + 1\<close> first and then draws the
  base of \<^verbatim>\<open>Math.pow(Math.random(), 1 / shape)\<close>. At \<open>shape = 0\<close> the exponent is
  \<^verbatim>\<open>Infinity\<close> and the power of a draw of \<open>[0, 1)\<close> is 0. For a negative shape and the draw
  0 the power is \<^verbatim>\<open>Infinity\<close>, which the model does not have; the arms call the sampler
  with shapes of at least one only.
\<close>

function gammaSample :: "real \<Rightarrow> real list \<Rightarrow> (real \<times> real list) option" where
  "gammaSample shape rs =
     (if shape < 1 then
        (case gammaSample (shape + 1) rs of
           None \<Rightarrow> None
         | Some (g, rs1) \<Rightarrow>
            (case rs1 of
               [] \<Rightarrow> None
             | u # rs2 \<Rightarrow> Some (g * (if shape = 0 then 0 else u powr (1 / shape)), rs2)))
      else
        (let d = shape - 1 / 3;
             c = 1 / sqrt (9 * d)
         in gammaLoop d c rs))"
  by pat_completeness auto
termination
  by (relation "measure (\<lambda>(shape, rs). nat \<lceil>1 - shape\<rceil>)") (auto, linarith)

declare gammaSample.simps [simp del]

text \<open>
  \<^verbatim>\<open>betaSample\<close>. For shapes of at least one, as the arms have them, both gamma samples
  are positive and the quotient is a number of \<open>(0, 1)\<close>. A gamma sample can be 0 only for
  a shape below one; when both are 0 the quotient of the code is \<^verbatim>\<open>NaN\<close>, which the model
  does not have.
\<close>

definition betaSample :: "real \<Rightarrow> real \<Rightarrow> real list \<Rightarrow> (real \<times> real list) option" where
  "betaSample a b rs =
     (case gammaSample a rs of
        None \<Rightarrow> None
      | Some (gamma1, rs1) \<Rightarrow>
         (case gammaSample b rs1 of
            None \<Rightarrow> None
          | Some (gamma2, rs2) \<Rightarrow> Some (gamma1 / (gamma1 + gamma2), rs2)))"

subsection \<open>Strategy selection\<close>

definition getContextAdjustment :: "string \<Rightarrow> FeatureSet \<Rightarrow> MarketRegime \<Rightarrow> real" where
  "getContextAdjustment sid features regime =
     (case map_of
        [(''trend_following'', if type_r regime = Trending then 1.5 else 0.8),
         (''momentum'', if volatility features > 0.5 then 1.3 else 0.9),
         (''mean_reversion'', if type_r regime = Ranging then 1.4 else 0.7),
         (''breakout'', if volatility features > 0.6 then 1.6 else 0.6),
         (''scalping'', if liquidity features > 0.7 then 1.4 else 0.5),
         (''swing_trading'', if type_r regime = Ranging then 1.3 else 0.8),
         (''statistical_arbitrage'', if \<bar>correlation features\<bar> > 0.6 then 1.2 else 0.9),
         (''contextual_bandits'', 1.0)] sid of
        Some a \<Rightarrow> a
      | None \<Rightarrow> 1.0)"

text \<open>The \<^verbatim>\<open>forEach\<close> over the arms: one adjusted Beta sample per arm, in map order.\<close>

fun sampleArms :: "FeatureSet \<Rightarrow> MarketRegime \<Rightarrow> BanditArm list \<Rightarrow> real list
                   \<Rightarrow> ((string \<times> real) list \<times> real list) option" where
  "sampleArms features regime [] rs = Some ([], rs)"
| "sampleArms features regime (arm # arms) rs =
     (case betaSample (alpha arm) (beta arm) rs of
        None \<Rightarrow> None
      | Some (sample, rs1) \<Rightarrow>
         (case sampleArms features regime arms rs1 of
            None \<Rightarrow> None
          | Some (samples, rs2) \<Rightarrow>
              Some ((strategyId arm,
                     sample * getContextAdjustment (strategyId arm) features regime) # samples,
                    rs2)))"

text \<open>
  \<^verbatim>\<open>samples.sort((a, b) => b.sample - a.sample)\<close>: a stable sort, highest sample first.
\<close>

definition sortSamples :: "(string \<times> real) list \<Rightarrow> (string \<times> real) list" where
  "sortSamples samples = sort_key (\<lambda>entry. - snd entry) samples"

text \<open>
  The epsilon-greedy choice after the sort. Reading \<^verbatim>\<open>strategyId\<close> of an index outside
  the array is a \<^verbatim>\<open>TypeError\<close>.
\<close>

definition pickStrategy :: "real \<Rightarrow> (string \<times> real) list \<Rightarrow> real list
                            \<Rightarrow> ((error + string) \<times> real list) option" where
  "pickStrategy rate ranked rs =
     (case rs of
        [] \<Rightarrow> None
      | u # rs1 \<Rightarrow>
          if u < rate then
            (case rs1 of
               [] \<Rightarrow> None
             | u' # rs2 \<Rightarrow>
                (let randomIndex = \<lfloor>u' * real (length ranked)\<rfloor>
                 in if 0 \<le> randomIndex \<and> randomIndex < int (length ranked)
                    then Some (Inr (fst (ranked ! nat randomIndex)), rs2)
                    else Some (Inl TypeError, rs2)))
          else (case ranked of
                  [] \<Rightarrow> Some (Inl TypeError, rs1)
                | best # _ \<Rightarrow> Some (Inr (fst best), rs1)))"

definition selectStrategy :: "BanditArm list \<Rightarrow> real \<Rightarrow> FeatureSet \<Rightarrow> MarketRegime \<Rightarrow> real list
                              \<Rightarrow> ((error + string) \<times> real list) option" where
  "selectStrategy arms rate features regime rs =
     (case sampleArms features regime arms rs of
        None \<Rightarrow> None
      | Some (samples, rs1) \<Rightarrow> pickStrategy rate (sortSamples samples) rs1)"

subsection \<open>The eight heuristics\<close>

text \<open>
  \<^verbatim>\<open>x.toFixed(d)\<close> for the free-text reasoning of a signal: the value rounded to
  \<open>d\<close> decimals, halves away from zero.
\<close>

definition toFixed :: "nat \<Rightarrow> real \<Rightarrow> string" where
  "toFixed d x =
     (let n = nat \<lfloor>\<bar>x\<bar> * 10 ^ d + 1 / 2\<rfloor>;
          whole = showNat (n div 10 ^ d) [];
          frac = showNat (n mod 10 ^ d) []
      in (if x < 0 then ''-'' else []) @ whole
         @ (if d = 0 then [] else ''.'' @ replicate (d - length frac) (CHR ''0'') @ frac))"

definition trendFollowingStrategy :: "TradingSignal \<Rightarrow> FeatureSet \<Rightarrow> TradingSignal" where
  "trendFollowingStrategy signal features =
     (let trendStrength = \<bar>trend features\<bar>
      in if trendStrength > 0.005 then
           signal\<lparr> action := (if trend features > 0 then Buy else Sell),
                   confidence_sig := min (trendStrength * 15) 0.95,
                   reasoning := ''Trend detected: ''
                     @ (if trend features > 0 then ''upward'' else ''downward'')
                     @ '' ('' @ toFixed 3 (trend features * 100) @ ''%)'' \<rparr>
         else signal)"

definition momentumStrategy :: "TradingSignal \<Rightarrow> FeatureSet \<Rightarrow> TradingSignal" where
  "momentumStrategy signal features =
     (let momentumStrength = \<bar>momentum features\<bar>
      in if momentumStrength > 0.002 then
           signal\<lparr> action := (if momentum features > 0 then Buy else Sell),
                   confidence_sig := min (momentumStrength * 25) 0.9,
                   reasoning := ''Momentum signal: '' @ toFixed 3 (momentum features * 100) @ ''%'' \<rparr>
         else signal)"

definition meanReversionStrategy :: "TradingSignal \<Rightarrow> FeatureSet \<Rightarrow> TradingSignal" where
  "meanReversionStrategy signal features =
     (if meanReversion features > 0.4 \<and> volatility features > 0.3 then
        signal\<lparr> action := (if trend features < 0 then Buy else Sell),
                confidence_sig := meanReversion features,
                reasoning := ''Mean reversion opportunity - price deviated ''
                  @ toFixed 1 (meanReversion features * 100) @ ''%'' \<rparr>
      else signal)"

definition breakoutStrategy :: "TradingSignal \<Rightarrow> FeatureSet \<Rightarrow> TradingSignal" where
  "breakoutStrategy signal features =
     (if volatility features > 0.6 \<and> liquidity features > 0.5 then
        (let breakoutSignal = \<bar>momentum features\<bar> > 0.03
         in if breakoutSignal then
              signal\<lparr> action := (if momentum features > 0 then Buy else Sell),
                      confidence_sig := min (volatility features + momentum features) 1,
                      reasoning := ''Breakout detected with high volatility (''
                        @ toFixed 1 (volatility features * 100) @ ''%)'' \<rparr>
            else signal)
      else signal)"

definition scalpingStrategy :: "TradingSignal \<Rightarrow> FeatureSet \<Rightarrow> TradingSignal" where
  "scalpingStrategy signal features =
     (if liquidity features > 0.7 \<and> volatility features < 0.4 then
        (let ofiSignal = \<bar>ofi features\<bar> > 0.3
         in if ofiSignal then
              signal\<lparr> action := (if ofi features > 0 then Buy else Sell),
                      confidence_sig := \<bar>ofi features\<bar>,
                      reasoning := ''Order flow imbalance: '' @ toFixed 1 (ofi features * 100) @ ''%'' \<rparr>
            else signal)
      else signal)"

definition swingTradingStrategy :: "TradingSignal \<Rightarrow> FeatureSet \<Rightarrow> MarketRegime \<Rightarrow> TradingSignal" where
  "swingTradingStrategy signal features regime =
     (if type_r regime = Ranging \<and> volatility features > 0.2 \<and> volatility features < 0.6 then
        (let swingSignal = \<bar>meanReversion features\<bar> > 0.3
         in if swingSignal then
              signal\<lparr> action := (if trend features < - 0.1 then Buy else Sell),
                      confidence_sig := meanReversion features * confidence_r regime,
                      reasoning := ''Swing trade in ranging market'' \<rparr>
            else signal)
      else signal)"

definition statisticalArbitrageStrategy :: "TradingSignal \<Rightarrow> FeatureSet \<Rightarrow> TradingSignal" where
  "statisticalArbitrageStrategy signal features =
     (if \<bar>correlation features\<bar> > 0.7 \<and> meanReversion features > 0.5 then
        signal\<lparr> action := (if correlation features * trend features < 0 then Buy else Sell),
                confidence_sig := min (\<bar>correlation features\<bar> + meanReversion features) 1 * 0.8,
                reasoning := ''Statistical arbitrage - correlation divergence'' \<rparr>
      else signal)"

definition contextualBanditsStrategy :: "TradingSignal \<Rightarrow> FeatureSet \<Rightarrow> MarketRegime \<Rightarrow> TradingSignal" where
  "contextualBanditsStrategy signal features regime =
     (let signals = [trend features * 0.3, momentum features * 0.2, ofi features * 0.2,
                     meanReversion features * - 0.1, vpin features * 0.2];
          combinedSignal = sum_list signals
      in if \<bar>combinedSignal\<bar> > 0.3 then
           signal\<lparr> action := (if combinedSignal > 0 then Buy else Sell),
                   confidence_sig := min (\<bar>combinedSignal\<bar> * confidence_r regime) 1,
                   reasoning := ''Multi-factor signal: '' @ toFixed 3 combinedSignal \<rparr>
         else signal)"

definition executeStrategy ::
  "string \<Rightarrow> string \<Rightarrow> real \<Rightarrow> FeatureSet \<Rightarrow> MarketRegime \<Rightarrow> int \<Rightarrow> TradingSignal" where
  "executeStrategy sid symbol price features regime now =
     (let baseSignal = \<lparr> symbol_sig = symbol, action = Hold, confidence_sig = 0, strategy = sid,
                          price_sig = price, timestamp_sig = now, reasoning = [] \<rparr>
      in if sid = ''trend_following'' then trendFollowingStrategy baseSignal features
         else if sid = ''momentum'' then momentumStrategy baseSignal features
         else if sid = ''mean_reversion'' then meanReversionStrategy baseSignal features
         else if sid = ''breakout'' then breakoutStrategy baseSignal features
         else if sid = ''scalping'' then scalpingStrategy baseSignal features
         else if sid = ''swing_trading'' then swingTradingStrategy baseSignal features regime
         else if sid = ''statistical_arbitrage'' then statisticalArbitrageStrategy baseSignal features
         else if sid = ''contextual_bandits'' then contextualBanditsStrategy baseSignal features regime
         else baseSignal)"

subsection \<open>Signal generation\<close>

text \<open>The two rate limits that return \<^verbatim>\<open>null\<close> before a strategy is selected.\<close>

definition cooldownActive :: "Orchestrator \<Rightarrow> string \<Rightarrow> int \<Rightarrow> bool" where
  "cooldownActive s symbol now =
     (let lastSignal = (case lastSignalTime s symbol of None \<Rightarrow> 0 | Some t \<Rightarrow> t);
          timeSinceLastSignal = now - lastSignal
      in real_of_int timeSinceLastSignal < signalCooldownMs (config_o s))"

definition tooManyRecentSignals :: "Orchestrator \<Rightarrow> string \<Rightarrow> int \<Rightarrow> bool" where
  "tooManyRecentSignals s symbol now =
     (let recentSymbolSignals =
            filter (\<lambda>g. symbol_sig g = symbol \<and> now - timestamp_sig g < 300000) (recentSignals s)
      in real (length recentSymbolSignals) \<ge> maxSignalsPerSymbol (config_o s))"

text \<open>
  \<^verbatim>\<open>generateSignal(symbol, price, features, regime)\<close>. \<open>saveResult\<close> is what the awaited
  \<^verbatim>\<open>SupabaseTradingService.saveSignal\<close> resolves to if it is called (\<open>None\<close> for
  \<^verbatim>\<open>null\<close>; the service catches its own errors and never rejects); \<open>now\<close> is the clock at
  the call and \<open>nowAfter\<close> the clock once the save has resolved; \<open>rs\<close> are the draws of
  \<^verbatim>\<open>Math.random()\<close>. The call is taken as one step: what other events do to the
  orchestrator while the save is awaited is not modelled. The result is \<open>None\<close> when the
  draws run out, otherwise the exception or the returned value (\<open>None\<close> for \<^verbatim>\<open>null\<close>)
  with the orchestrator afterwards.
\<close>

definition generateSignal ::
  "string option \<Rightarrow> string \<Rightarrow> real \<Rightarrow> FeatureSet \<Rightarrow> MarketRegime \<Rightarrow> int \<Rightarrow> int \<Rightarrow> real list
   \<Rightarrow> Orchestrator \<Rightarrow> (error + ((TradingSignal \<times> string) option \<times> Orchestrator)) option" where
  "generateSignal saveResult symbol price features regime now nowAfter rs s =
     (if cooldownActive s symbol now then Some (Inr (None, s))
      else if tooManyRecentSignals s symbol now then Some (Inr (None, s))
      else
        (case selectStrategy (banditArms s) (explorationRate (config_o s)) features regime rs of
           None \<Rightarrow> None
         | Some (Inl e, rs1) \<Rightarrow> Some (Inl e)
         | Some (Inr selectedStrategy, rs1) \<Rightarrow>
            (let signal = executeStrategy selectedStrategy symbol price features regime now
             in if confidence_sig signal \<ge> minConfidenceThreshold (config_o s) then
                  (case saveResult of
                     None \<Rightarrow> Some (Inr (None, s))
                   | Some signalId \<Rightarrow>
                       if signalId = [] then Some (Inr (None, s))
                       else
                         (let pushed = recentSignals s @ [signal];
                              s1 = s\<lparr> recentSignals :=
                                        (if length pushed > 100 then tl pushed else pushed),
                                      lastSignalTime := (lastSignalTime s)(symbol \<mapsto> nowAfter) \<rparr>
                          in Some (Inr (Some (signal, signalId), s1))))
                else Some (Inr (None, s)))))"

section \<open>Auxiliary notions\<close>

subsection \<open>Relations between the earlier and the later value of a position\<close>

text \<open>
  A relation that holds when nothing happens to a position, composes, and holds across
  the field assignments of \<^verbatim>\<open>updatePosition\<close>, with or without the refresh of the
  trailing stop.
\<close>

definition tick_preorder :: "(Position \<Rightarrow> Position \<Rightarrow> bool) \<Rightarrow> bool" where
  "tick_preorder R \<longleftrightarrow>
     (\<forall>p. R p p) \<and> (\<forall>p q r. R p q \<longrightarrow> R q r \<longrightarrow> R p r)
     \<and> (\<forall>cfg now p price p1.
           p1 = updatePosition_fields now p price
           \<or> updateTrailingStop cfg (updatePosition_fields now p price) = Inr p1 \<longrightarrow> R p p1)"


text \<open>The side is kept and the trailing stop moves, if at all, in the favourable direction.\<close>

definition stop_ratchets :: "Position \<Rightarrow> Position \<Rightarrow> bool" where
  "stop_ratchets p q \<longleftrightarrow>
     side q = side p
     \<and> (side p = Long \<longrightarrow> trailingStopPrice p \<le> trailingStopPrice q)
     \<and> (side p = Short \<longrightarrow> trailingStopPrice q \<le> trailingStopPrice p)"

text \<open>The position an effect is about.\<close>

fun effect_pos :: "Effect \<Rightarrow> Position" where
  "effect_pos (SavePosition p sid) = p"
| "effect_pos (UpdatePositionDb p) = p"
| "effect_pos (ClosePositionDb p r) = p"
| "effect_pos (ExitCallback p r) = p"

subsection \<open>Concrete inputs\<close>

text \<open>
  An engine with the default configuration holding one long position on BTCUSDT opened
  at 100, the same engine with a second position opened by a \<^verbatim>\<open>hold\<close> signal on
  ETHUSDT, and with three positions on BTCUSDT; two ticks for BTCUSDT.
\<close>

definition demo_buy :: TradingSignal where
  "demo_buy = \<lparr> symbol_sig = ''BTCUSDT'', action = Buy, confidence_sig = 0.8,
      strategy = ''momentum'', price_sig = 100, timestamp_sig = 0, reasoning = [] \<rparr>"

definition demo_hold :: TradingSignal where
  "demo_hold = \<lparr> symbol_sig = ''ETHUSDT'', action = Hold, confidence_sig = 0,
      strategy = ''scalping'', price_sig = 2000, timestamp_sig = 0, reasoning = [] \<rparr>"

definition demo_engine :: Engine where
  "demo_engine = snd (projr (addPosition demo_buy 1 None 0 (newEngine defaultTradingConfig)))"

definition demo_engine2 :: Engine where
  "demo_engine2 = snd (projr (addPosition demo_hold 2 (Some ''sig-1'') 5 demo_engine))"

definition demo_engine3 :: Engine where
  "demo_engine3 =
     snd (projr (addPosition demo_buy 1 None 2
       (snd (projr (addPosition demo_buy 1 None 1 demo_engine)))))"



text \<open>
  Histories of the feature engine: ten ticks for BTCUSDT at the price 100, ten ticks for
  ETHUSDT alternating between 1 and 4, and a market-data object that carries only an
  order-book snapshot.
\<close>

definition demo_update :: "string \<Rightarrow> real \<Rightarrow> FeatureOp" where
  "demo_update symbol p =
     UpdateData \<lparr> tickers = [(symbol, \<lparr> symbol_tk = symbol, price_tk = p, change24h = 0,
                                       volume = 1, timestamp_tk = 0 \<rparr>)],
                  orderBooks = [], lastUpdate = 0 \<rparr>"

definition demo_flat_ops :: "FeatureOp list" where
  "demo_flat_ops = map (demo_update ''BTCUSDT'') [100, 100, 100, 100, 100, 100, 100, 100, 100, 100]"




definition demo_depth_only :: MarketData where
  "demo_depth_only =
     \<lparr> tickers = [],
       orderBooks = [(''ETHUSDT'', \<lparr> symbol_ob = ''ETHUSDT'', bids = [(1999, 2)], asks = [(2001, 3)],
                                    timestamp_ob = 0 \<rparr>)],
       lastUpdate = 0 \<rparr>"

text \<open>
  Draws of \<^verbatim>\<open>Math.random()\<close> on which every gamma sample is accepted in its first
  round (the second draw \<open>1 / 4\<close> makes the normal sample 0): the 48 draws that the
  sampler reads for the eight arms, and the same followed by one draw that declines the
  exploration; features with a trend of 0.1 in a trending regime; a new
  orchestrator.
\<close>

definition demo_gamma_draws :: "real list" where
  "demo_gamma_draws = [1 / 2, 1 / 4, 1 / 2]"

definition demo_arm_draws :: "real list" where
  "demo_arm_draws = demo_gamma_draws @ demo_gamma_draws"

definition demo_sampler_draws :: "real list" where
  "demo_sampler_draws = demo_arm_draws @ demo_arm_draws @ demo_arm_draws @ demo_arm_draws
                      @ demo_arm_draws @ demo_arm_draws @ demo_arm_draws @ demo_arm_draws"

definition demo_draws :: "real list" where
  "demo_draws = demo_sampler_draws @ [1 / 2]"

text \<open>The adjusted samples that the sampler computes from these draws, in map order.\<close>

definition demo_samples :: "(string \<times> real) list" where
  "demo_samples =
     [(''trend_following'', 3 / 4), (''swing_trading'', 2 / 5), (''momentum'', 9 / 20),
      (''mean_reversion'', 7 / 20), (''breakout'', 3 / 10), (''scalping'', 1 / 4),
      (''statistical_arbitrage'', 9 / 20), (''contextual_bandits'', 1 / 2)]"

definition demo_features :: FeatureSet where
  "demo_features = \<lparr> vvix = 0, ofi = 0, vpin = 0, correlation = 0, liquidity = 0, volatility = 0,
                      momentum = 0, meanReversion = 0, trend = 0.1, timestamp_fs = 0 \<rparr>"

definition demo_regime :: MarketRegime where
  "demo_regime = \<lparr> type_r = Trending, confidence_r = 0.5, features_r = demo_features \<rparr>"

definition demo_orchestrator :: Orchestrator where
  "demo_orchestrator = newOrchestrator defaultOrchestratorConfig"

section \<open>Properties of the profit-locking engine\<close>

subsection \<open>The map of live positions\<close>

lemma lookup_pos_SomeD: "lookup_pos k ps = Some p \<Longrightarrow> p \<in> set ps \<and> id_pos p = k"
  by (auto simp: lookup_pos_def find_Some_iff)

lemma lookup_pos_distinct:
  "distinct (map id_pos ps) \<Longrightarrow> p \<in> set ps \<Longrightarrow> lookup_pos (id_pos p) ps = Some p"
  unfolding lookup_pos_def
  by (induction ps) auto

lemma map_id_store_pos: "map id_pos (store_pos p ps) = map id_pos ps"
  by (induction ps) (auto simp: store_pos_def)

lemma set_store_pos:
  "q \<in> set (store_pos p ps) \<Longrightarrow> q = p \<or> (q \<in> set ps \<and> id_pos q \<noteq> id_pos p)"
  by (auto simp: store_pos_def split: if_splits)

lemma store_pos_other:
  "q \<in> set ps \<Longrightarrow> id_pos q \<noteq> id_pos p \<Longrightarrow> q \<in> set (store_pos p ps)"
  by (auto simp: store_pos_def)

lemma store_pos_self:
  "q \<in> set ps \<Longrightarrow> id_pos q = id_pos p \<Longrightarrow> p \<in> set (store_pos p ps)"
  by (force simp: store_pos_def)

lemma lookup_store_pos:
  assumes "distinct (map id_pos ps)" and "p \<in> set ps" and "id_pos p1 = id_pos p"
  shows "lookup_pos (id_pos p) (store_pos p1 ps) = Some p1"
proof -
  have "p1 \<in> set (store_pos p1 ps)" using assms(2,3) store_pos_self by metis
  moreover have "distinct (map id_pos (store_pos p1 ps))" using assms(1) by (simp add: map_id_store_pos)
  ultimately show ?thesis using lookup_pos_distinct assms(3) by metis
qed

lemma set_delete_pos: "set (delete_pos k ps) = {q \<in> set ps. id_pos q \<noteq> k}"
  by (auto simp: delete_pos_def)

lemma distinct_delete_pos: "distinct (map id_pos ps) \<Longrightarrow> distinct (map id_pos (delete_pos k ps))"
  by (simp add: delete_pos_def distinct_map_filter)

lemma lookup_set_pos: "lookup_pos (id_pos p) (set_pos p ps) = Some p"
proof (cases "id_pos p \<in> set (map id_pos ps)")
  case True
  then show ?thesis
    unfolding lookup_pos_def set_pos_def
    by (induction ps) auto
next
  case False
  then show ?thesis
    unfolding lookup_pos_def set_pos_def
    by (induction ps) auto
qed


subsection \<open>Opening a position\<close>

lemma selectProfitLockMethod_configured:
  "\<exists>plc. defaultConfigs cfg (selectProfitLockMethod signal) = Some plc"
  by (simp add: selectProfitLockMethod_def defaultConfigs_def)

lemma id_newPosition:
  "id_pos (newPosition cfg signal sz now m plc atr) = symbol_sig signal @ ''_'' @ numberToString now"
  by (simp add: newPosition_def)

lemma addPosition_cases:
  assumes "addPosition signal sz signalId now s = Inr (k, s')"
  shows "(k = [] \<and> s' = s)
         \<or> (\<exists>plc. defaultConfigs (config s) (selectProfitLockMethod signal) = Some plc
               \<and> k = symbol_sig signal @ ''_'' @ numberToString now
               \<and> positions s' =
                   set_pos (newPosition (config s) signal sz now (selectProfitLockMethod signal) plc
                              (calculateATR s (symbol_sig signal))) (positions s)
               \<and> config s' = config s)"
proof (cases "real (length (positions s)) \<ge> maxPositions (config s)
              \<or> length (filter (\<lambda>p. symbol_pos p = symbol_sig signal) (positions s)) \<ge> 3")
  case True
  with assms show ?thesis by (auto simp: addPosition_def split: if_splits)
next
  case False
  obtain plc where plc: "defaultConfigs (config s) (selectProfitLockMethod signal) = Some plc"
    using selectProfitLockMethod_configured by blast
  with assms False show ?thesis
    by (cases signalId) (auto simp: addPosition_def Let_def id_newPosition split: if_splits)
qed

text \<open>The position object built by an accepted call.\<close>

lemma addPosition_accepted:
  assumes "addPosition signal sz signalId now s = Inr (k, s')" and "k \<noteq> []"
  shows "\<exists>p. lookup_pos k (positions s') = Some p
           \<and> side p = (if action signal = Buy then Long else Short)
           \<and> maxDrawdownFromPeak p = 0
           \<and> originalSignal p = signal"
proof -
  from addPosition_cases[OF assms(1)] assms(2) obtain plc where
    k: "k = symbol_sig signal @ ''_'' @ numberToString now"
    and ps: "positions s' =
        set_pos (newPosition (config s) signal sz now (selectProfitLockMethod signal) plc
                   (calculateATR s (symbol_sig signal))) (positions s)"
    by blast
  let ?p = "newPosition (config s) signal sz now (selectProfitLockMethod signal) plc
              (calculateATR s (symbol_sig signal))"
  have "id_pos ?p = k" by (simp add: newPosition_def k)
  with lookup_set_pos[of ?p "positions s"] ps have "lookup_pos k (positions s') = Some ?p"
    by simp
  then show ?thesis by (simp add: newPosition_def)
qed


lemma addPosition_total:
  "\<exists>k s'. addPosition signal sz signalId now s = Inr (k, s')"
proof -
  obtain plc where "defaultConfigs (config s) (selectProfitLockMethod signal) = Some plc"
    using selectProfitLockMethod_configured by blast
  then show ?thesis
    unfolding addPosition_def Let_def
    by (auto split: option.splits)
qed

subsection \<open>One position on one tick\<close>

lemma updatePosition_fields_id [simp]: "id_pos (updatePosition_fields now p price) = id_pos p"
  by (simp add: updatePosition_fields_def Let_def)

lemma updateTrailingStop_id: "updateTrailingStop cfg p = Inr p' \<Longrightarrow> id_pos p' = id_pos p"
  by (auto simp: updateTrailingStop_def Let_def split: option.splits if_splits)

text \<open>One position update inside the engine.\<close>

lemma updatePosition_shape:
  assumes "updatePosition now p price s = (s1, e)"
  shows "\<exists>p1. id_pos p1 = id_pos p \<and> positions s1 = store_pos p1 (positions s)
           \<and> config s1 = config s
           \<and> (p1 = updatePosition_fields now p price \<and> e \<noteq> None
              \<or> updateTrailingStop (config s) (updatePosition_fields now p price) = Inr p1 \<and> e = None)
           \<and> (\<exists>new. effects s1 = effects s @ new \<and> (\<forall>x \<in> set new. x = UpdatePositionDb p1))"
  using assms
  by (auto simp: updatePosition_def Let_def split: sum.splits dest: updateTrailingStop_id)

lemma checkExit_shape:
  assumes "checkExitConditions now p s = (s1, e)"
  shows "config s1 = config s \<and> (positions s1 = positions s \<and> effects s1 = effects s
          \<or> (\<exists>r. positions s1 = delete_pos (id_pos p) (positions s)
                 \<and> effects s1 = effects s @ [ClosePositionDb p r, ExitCallback p r]))"
  using assms
  by (auto simp: checkExitConditions_def exitPosition_def split: sum.splits if_splits)

lemma updateTrailingStop_ratchet:
  assumes "updateTrailingStop cfg p = Inr p'"
  shows "side p' = side p
         \<and> (side p = Long \<longrightarrow> trailingStopPrice p \<le> trailingStopPrice p')
         \<and> (side p = Short \<longrightarrow> trailingStopPrice p' \<le> trailingStopPrice p)"
  using assms
  by (cases "side p") (auto simp: updateTrailingStop_def Let_def split: option.splits if_splits)

lemma updatePosition_fields_stop:
  "side (updatePosition_fields now p price) = side p
   \<and> trailingStopPrice (updatePosition_fields now p price) = trailingStopPrice p"
  by (simp add: updatePosition_fields_def Let_def)



subsection \<open>Relations that every tick respects\<close>

lemma tick_preorderD:
  assumes "tick_preorder R"
  shows "R p p" and "R p q \<Longrightarrow> R q r \<Longrightarrow> R p r"
    and "p1 = updatePosition_fields now p price
         \<or> updateTrailingStop cfg (updatePosition_fields now p price) = Inr p1 \<Longrightarrow> R p p1"
  using assms unfolding tick_preorder_def by blast+

lemma tickPosition_rel:
  assumes R: "tick_preorder R"
    and wf: "wf_engine s"
    and tick: "tickPosition prc now k s = (s', e)"
  shows "wf_engine s' \<and> config s' = config s
         \<and> (\<forall>p' \<in> set (positions s'). \<exists>p \<in> set (positions s). id_pos p = id_pos p' \<and> R p p')"
proof -
  note R_refl = tick_preorderD(1)[OF R]
  note R_step = tick_preorderD(3)[OF R]
  show ?thesis
  proof (cases "lookup_pos k (positions s)")
  case None
  with tick wf R_refl show ?thesis by (auto simp: tickPosition_def)
next
  case (Some p)
  then have p_in: "p \<in> set (positions s)" and p_id: "id_pos p = k"
    by (auto dest: lookup_pos_SomeD)
  show ?thesis
  proof (cases "truthyPrice prc (symbol_pos p)")
    case False
    with tick Some wf R_refl show ?thesis by (auto simp: tickPosition_def)
  next
    case True
    obtain s1 e1 where upd: "updatePosition now p (the (prc (symbol_pos p))) s = (s1, e1)"
      by (cases "updatePosition now p (the (prc (symbol_pos p))) s") auto
    from updatePosition_shape[OF upd] obtain p1 where
      p1: "id_pos p1 = id_pos p" "positions s1 = store_pos p1 (positions s)" "config s1 = config s"
        "p1 = updatePosition_fields now p (the (prc (symbol_pos p)))
         \<or> updateTrailingStop (config s) (updatePosition_fields now p (the (prc (symbol_pos p)))) = Inr p1"
      by blast
    have Rp: "R p p1" using R_step p1(4) by blast
    have wf1: "wf_engine s1" using wf p1(2) by (simp add: wf_engine_def map_id_store_pos)
    have rel1: "\<forall>p' \<in> set (positions s1). \<exists>q \<in> set (positions s). id_pos q = id_pos p' \<and> R q p'"
    proof
      fix p' assume "p' \<in> set (positions s1)"
      then have "p' = p1 \<or> p' \<in> set (positions s)"
        using p1(2) set_store_pos by fastforce
      then show "\<exists>q \<in> set (positions s). id_pos q = id_pos p' \<and> R q p'"
        using Rp p_in p1(1) R_refl by auto
    qed
    have sub: "wf_engine s' \<and> config s' = config s1 \<and> set (positions s') \<subseteq> set (positions s1)"
    proof (cases e1)
      case (Some err)
      with tick \<open>lookup_pos k (positions s) = Some p\<close> True upd wf1 show ?thesis
        by (auto simp: tickPosition_def)
    next
      case None
      show ?thesis
      proof (cases "lookup_pos k (positions s1)")
        case None': None
        with tick \<open>lookup_pos k (positions s) = Some p\<close> True upd None wf1 show ?thesis
          by (auto simp: tickPosition_def)
      next
        case (Some q)
        with tick \<open>lookup_pos k (positions s) = Some p\<close> True upd None
        have "checkExitConditions now q s1 = (s', e)" by (auto simp: tickPosition_def)
        from checkExit_shape[OF this] wf1 show ?thesis
          by (auto simp: wf_engine_def distinct_delete_pos set_delete_pos)
      qed
    qed
    with rel1 p1(3) show ?thesis by auto
  qed
qed
qed

lemma forEachPosition_rel:
  assumes R: "tick_preorder R"
  shows "wf_engine s \<Longrightarrow> forEachPosition prc now ks s = (s', e) \<Longrightarrow>
         wf_engine s' \<and> config s' = config s
         \<and> (\<forall>p' \<in> set (positions s'). \<exists>p \<in> set (positions s). id_pos p = id_pos p' \<and> R p p')"
proof (induction ks arbitrary: s)
  case Nil
  then show ?case using tick_preorderD(1)[OF R] by auto
next
  case (Cons k ks)
  obtain s1 e1 where t: "tickPosition prc now k s = (s1, e1)"
    by (cases "tickPosition prc now k s") auto
  note step = tickPosition_rel[OF R Cons.prems(1) t]
  show ?case
  proof (cases e1)
    case (Some err)
    with Cons.prems(2) t have "s' = s1" by simp
    with step show ?thesis by simp
  next
    case None
    with Cons.prems(2) t have "forEachPosition prc now ks s1 = (s', e)" by simp
    from Cons.IH[OF _ this] step
    have ih: "wf_engine s'" "config s' = config s1"
      "\<forall>p' \<in> set (positions s'). \<exists>p \<in> set (positions s1). id_pos p = id_pos p' \<and> R p p'"
      by auto
    have "\<forall>p' \<in> set (positions s'). \<exists>p \<in> set (positions s). id_pos p = id_pos p' \<and> R p p'"
    proof
      fix p' assume "p' \<in> set (positions s')"
      with ih(3) obtain q where q: "q \<in> set (positions s1)" "id_pos q = id_pos p'" "R q p'" by blast
      from step have "\<forall>q \<in> set (positions s1). \<exists>p \<in> set (positions s). id_pos p = id_pos q \<and> R p q"
        by simp
      with q(1) obtain p where "p \<in> set (positions s)" "id_pos p = id_pos q" "R p q" by blast
      with q tick_preorderD(2)[OF R] show "\<exists>p \<in> set (positions s). id_pos p = id_pos p' \<and> R p p'"
        by (metis)
    qed
    with ih step show ?thesis by simp
  qed
qed

lemma updatePositions_rel:
  assumes R: "tick_preorder R"
    and wf: "wf_engine s"
  shows "wf_engine (fst (updatePositions prc now s))
         \<and> config (fst (updatePositions prc now s)) = config s
         \<and> (\<forall>p' \<in> set (positions (fst (updatePositions prc now s))).
               \<exists>p \<in> set (positions s). id_pos p = id_pos p' \<and> R p p')"
  using forEachPosition_rel[where prc = prc and now = now
          and ks = "map id_pos (positions s)" and s' = "fst (updatePositions prc now s)"
          and e = "snd (updatePositions prc now s)", OF R wf]
  by (simp add: updatePositions_def)




lemma stop_ratchets_preorder: "tick_preorder stop_ratchets"
proof -
  have "stop_ratchets p p1"
    if "p1 = updatePosition_fields now p price
        \<or> updateTrailingStop cfg (updatePosition_fields now p price) = Inr p1"
    for cfg now p price p1
    using that
  proof
    assume "p1 = updatePosition_fields now p price"
    with updatePosition_fields_stop[of now p price] show ?thesis
      by (simp add: stop_ratchets_def)
  next
    assume "updateTrailingStop cfg (updatePosition_fields now p price) = Inr p1"
    from updateTrailingStop_ratchet[OF this] updatePosition_fields_stop[of now p price]
    show ?thesis by (simp add: stop_ratchets_def)
  qed
  moreover have "stop_ratchets p p" for p by (simp add: stop_ratchets_def)
  moreover have "stop_ratchets p q \<Longrightarrow> stop_ratchets q r \<Longrightarrow> stop_ratchets p r" for p q r
    by (auto simp: stop_ratchets_def)
  ultimately show ?thesis unfolding tick_preorder_def by blast
qed

subsection \<open>Positions that a tick does not touch\<close>

lemma tickPosition_wf:
  "wf_engine s \<Longrightarrow> tickPosition prc now k s = (s', e) \<Longrightarrow> wf_engine s'"
proof -
  have "tick_preorder (\<lambda>p q. True)" by (simp add: tick_preorder_def)
  from tickPosition_rel[OF this] show "wf_engine s \<Longrightarrow> tickPosition prc now k s = (s', e) \<Longrightarrow> wf_engine s'"
    by blast
qed

lemma tickPosition_frame:
  assumes wf: "wf_engine s" and p_in: "p \<in> set (positions s)"
    and falsy: "\<not> truthyPrice prc (symbol_pos p)"
    and tick: "tickPosition prc now k s = (s', e)"
  shows "p \<in> set (positions s')
         \<and> (\<exists>new. effects s' = effects s @ new \<and> (\<forall>x \<in> set new. id_pos (effect_pos x) \<noteq> id_pos p))"
proof (cases "lookup_pos k (positions s)")
  case None
  with tick p_in show ?thesis by (auto simp: tickPosition_def)
next
  case (Some q)
  then have q_in: "q \<in> set (positions s)" and q_id: "id_pos q = k"
    by (auto dest: lookup_pos_SomeD)
  show ?thesis
  proof (cases "truthyPrice prc (symbol_pos q)")
    case False
    with tick Some p_in show ?thesis by (auto simp: tickPosition_def)
  next
    case True
    have "q \<noteq> p" using True falsy by auto
    have neq: "id_pos p \<noteq> k"
    proof
      assume "id_pos p = k"
      with lookup_pos_distinct[OF wf[unfolded wf_engine_def] p_in] Some have "q = p" by simp
      with \<open>q \<noteq> p\<close> show False by simp
    qed
    obtain s1 e1 where upd: "updatePosition now q (the (prc (symbol_pos q))) s = (s1, e1)"
      by (cases "updatePosition now q (the (prc (symbol_pos q))) s") auto
    from updatePosition_shape[OF upd] obtain q1 new1 where
      q1: "id_pos q1 = id_pos q" "positions s1 = store_pos q1 (positions s)"
          "effects s1 = effects s @ new1" "\<forall>x \<in> set new1. x = UpdatePositionDb q1"
      by blast
    have p1: "p \<in> set (positions s1)"
      using q1(1,2) p_in neq q_id by (simp add: store_pos_other)
    have new1: "\<forall>x \<in> set new1. id_pos (effect_pos x) \<noteq> id_pos p"
      using q1(1,4) neq q_id by auto
    show ?thesis
    proof (cases e1)
      case (Some err)
      with tick \<open>lookup_pos k (positions s) = Some q\<close> True upd have "s' = s1"
        by (auto simp: tickPosition_def)
      with p1 q1(3) new1 show ?thesis by auto
    next
      case None
      show ?thesis
      proof (cases "lookup_pos k (positions s1)")
        case None': None
        with tick \<open>lookup_pos k (positions s) = Some q\<close> True upd None have "s' = s1"
          by (auto simp: tickPosition_def)
        with p1 q1(3) new1 show ?thesis by auto
      next
        case (Some r)
        then have r_id: "id_pos r = k" by (auto dest: lookup_pos_SomeD)
        from Some tick \<open>lookup_pos k (positions s) = Some q\<close> True upd None
        have "checkExitConditions now r s1 = (s', e)" by (auto simp: tickPosition_def)
        from checkExit_shape[OF this]
        have "positions s' = positions s1 \<and> effects s' = effects s1
              \<or> (\<exists>why. positions s' = delete_pos (id_pos r) (positions s1)
                     \<and> effects s' = effects s1 @ [ClosePositionDb r why, ExitCallback r why])"
          by simp
        then show ?thesis
        proof
          assume "positions s' = positions s1 \<and> effects s' = effects s1"
          with p1 q1(3) new1 show ?thesis by auto
        next
          assume "\<exists>why. positions s' = delete_pos (id_pos r) (positions s1)
                     \<and> effects s' = effects s1 @ [ClosePositionDb r why, ExitCallback r why]"
          then obtain why where w: "positions s' = delete_pos (id_pos r) (positions s1)"
            "effects s' = effects s1 @ [ClosePositionDb r why, ExitCallback r why]" by blast
          have "p \<in> set (positions s')" using w(1) p1 neq r_id by (simp add: set_delete_pos)
          moreover have "effects s' = effects s @ (new1 @ [ClosePositionDb r why, ExitCallback r why])"
            using w(2) q1(3) by simp
          moreover have "\<forall>x \<in> set (new1 @ [ClosePositionDb r why, ExitCallback r why]).
                           id_pos (effect_pos x) \<noteq> id_pos p"
            using new1 neq r_id by auto
          ultimately show ?thesis by blast
        qed
      qed
    qed
  qed
qed

lemma forEachPosition_frame:
  "wf_engine s \<Longrightarrow> p \<in> set (positions s) \<Longrightarrow> \<not> truthyPrice prc (symbol_pos p) \<Longrightarrow>
   forEachPosition prc now ks s = (s', e) \<Longrightarrow>
   p \<in> set (positions s')
   \<and> (\<exists>new. effects s' = effects s @ new \<and> (\<forall>x \<in> set new. id_pos (effect_pos x) \<noteq> id_pos p))"
proof (induction ks arbitrary: s)
  case Nil
  then show ?case by simp
next
  case (Cons k ks)
  obtain s1 e1 where t: "tickPosition prc now k s = (s1, e1)"
    by (cases "tickPosition prc now k s") auto
  from tickPosition_frame[OF Cons.prems(1,2,3) t] obtain new1 where
    f1: "p \<in> set (positions s1)" "effects s1 = effects s @ new1"
        "\<forall>x \<in> set new1. id_pos (effect_pos x) \<noteq> id_pos p" by blast
  have wf1: "wf_engine s1" using tickPosition_wf[OF Cons.prems(1) t] .
  show ?case
  proof (cases e1)
    case (Some err)
    with Cons.prems(4) t have "s' = s1" by simp
    with f1 show ?thesis by auto
  next
    case None
    with Cons.prems(4) t have "forEachPosition prc now ks s1 = (s', e)" by simp
    from Cons.IH[OF wf1 f1(1) Cons.prems(3) this] obtain new2 where
      f2: "p \<in> set (positions s')" "effects s' = effects s1 @ new2"
          "\<forall>x \<in> set new2. id_pos (effect_pos x) \<noteq> id_pos p" by blast
    have "effects s' = effects s @ (new1 @ new2)" using f1(2) f2(2) by simp
    moreover have "\<forall>x \<in> set (new1 @ new2). id_pos (effect_pos x) \<noteq> id_pos p"
      using f1(3) f2(3) by auto
    ultimately show ?thesis using f2(1) by blast
  qed
qed

subsection \<open>Evaluating the engine on concrete inputs\<close>

lemmas engine_eval =
  newEngine_def defaultTradingConfig_def addPosition_def newPosition_def
  selectProfitLockMethod_def defaultConfigs_def calculateATR_def calculateInitialStopPrice_def
  calculateTakeProfitPrice_def set_pos_def numberToString_def showNat.simps digitChar_def Let_def
  updatePositions_def tickPosition_def lookup_pos_def truthyPrice_def updatePosition_def
  updatePosition_fields_def pushPrice_def updateTrailingStop_def store_pos_def
  calculateEdgeDecay_def checkExitConditions_def exitReasons_def

lemma demo_engine_positions:
  "positions demo_engine =
     [newPosition defaultTradingConfig demo_buy 1 0 ''volatility_adaptive_trailing_stop''
        (the (defaultConfigs defaultTradingConfig ''volatility_adaptive_trailing_stop'')) 0.01]"
  by (simp add: demo_engine_def demo_buy_def newEngine_def defaultTradingConfig_def addPosition_def
      selectProfitLockMethod_def defaultConfigs_def calculateATR_def set_pos_def Let_def)


lemma demo_engine_wf: "wf_engine demo_engine"
  by (simp add: wf_engine_def demo_engine_positions newPosition_def)

subsection \<open>Drawdown\<close>



subsection \<open>Trailing stop\<close>

text \<open>
  Claim C2. A price update never loosens the trailing stop and never changes the side.
  For the update of one open position by \<^verbatim>\<open>updatePosition\<close>, before its exit conditions
  are looked at: the position stored under its id afterwards has a stop that is not lower
  if it is long and not higher if it is short. For one call of \<^verbatim>\<open>updatePositions\<close>, with
  any prices: every position that is live afterwards was live before, under the same id,
  and its stop has moved, if at all, in that direction.
\<close>

theorem trailingStop_only_ratchets:
  assumes "wf_engine s"
  shows "(\<forall>p price s1 e. p \<in> set (positions s) \<longrightarrow> updatePosition now p price s = (s1, e) \<longrightarrow>
            (\<exists>p1. lookup_pos (id_pos p) (positions s1) = Some p1 \<and> side p1 = side p
               \<and> (side p = Long \<longrightarrow> trailingStopPrice p \<le> trailingStopPrice p1)
               \<and> (side p = Short \<longrightarrow> trailingStopPrice p1 \<le> trailingStopPrice p)))
         \<and> (\<forall>currentPrices s' e p'. updatePositions currentPrices now s = (s', e) \<longrightarrow>
              p' \<in> set (positions s') \<longrightarrow>
            (\<exists>p \<in> set (positions s). id_pos p = id_pos p' \<and> side p' = side p
               \<and> (side p = Long \<longrightarrow> trailingStopPrice p \<le> trailingStopPrice p')
               \<and> (side p = Short \<longrightarrow> trailingStopPrice p' \<le> trailingStopPrice p)))"
proof (intro conjI allI impI)
  fix p price s1 e
  assume p_in: "p \<in> set (positions s)" and upd: "updatePosition now p price s = (s1, e)"
  from updatePosition_shape[OF upd] obtain p1 where
    p1: "id_pos p1 = id_pos p" "positions s1 = store_pos p1 (positions s)"
      "p1 = updatePosition_fields now p price
       \<or> updateTrailingStop (config s) (updatePosition_fields now p price) = Inr p1"
    by blast
  have "stop_ratchets p p1"
    using tick_preorderD(3)[OF stop_ratchets_preorder p1(3)] .
  moreover have "lookup_pos (id_pos p) (positions s1) = Some p1"
    using lookup_store_pos[OF assms[unfolded wf_engine_def] p_in p1(1)] p1(2) by simp
  ultimately show "\<exists>p1. lookup_pos (id_pos p) (positions s1) = Some p1 \<and> side p1 = side p
               \<and> (side p = Long \<longrightarrow> trailingStopPrice p \<le> trailingStopPrice p1)
               \<and> (side p = Short \<longrightarrow> trailingStopPrice p1 \<le> trailingStopPrice p)"
    unfolding stop_ratchets_def by blast
next
  fix currentPrices s' e p'
  assume run: "updatePositions currentPrices now s = (s', e)" and live: "p' \<in> set (positions s')"
  from updatePositions_rel[where prc = currentPrices and now = now,
         OF stop_ratchets_preorder assms] run live
  obtain p where "p \<in> set (positions s)" "id_pos p = id_pos p'" "stop_ratchets p p'"
    by auto
  then show "\<exists>p \<in> set (positions s). id_pos p = id_pos p' \<and> side p' = side p
               \<and> (side p = Long \<longrightarrow> trailingStopPrice p \<le> trailingStopPrice p')
               \<and> (side p = Short \<longrightarrow> trailingStopPrice p' \<le> trailingStopPrice p)"
    unfolding stop_ratchets_def by blast
qed

text \<open>
  The long position of the witness engine: its stop is 97 at entry and 107.8 after the
  price 110.
\<close>

theorem trailingStop_only_ratchets_witness:
  "map trailingStopPrice (positions demo_engine) = [97]
   \<and> map trailingStopPrice (positions (fst (updatePositions [''BTCUSDT'' \<mapsto> 110] 1000 demo_engine))) = [1078 / 10]
   \<and> (\<exists>p \<in> set (positions demo_engine).
         id_pos p = id_pos (hd (positions (fst (updatePositions [''BTCUSDT'' \<mapsto> 110] 1000 demo_engine))))
         \<and> side (hd (positions (fst (updatePositions [''BTCUSDT'' \<mapsto> 110] 1000 demo_engine)))) = side p
         \<and> (side p = Long \<longrightarrow> trailingStopPrice p
               \<le> trailingStopPrice (hd (positions (fst (updatePositions [''BTCUSDT'' \<mapsto> 110] 1000 demo_engine)))))
         \<and> (side p = Short \<longrightarrow>
               trailingStopPrice (hd (positions (fst (updatePositions [''BTCUSDT'' \<mapsto> 110] 1000 demo_engine))))
               \<le> trailingStopPrice p))"
proof -
  let ?r = "updatePositions [''BTCUSDT'' \<mapsto> 110] 1000 demo_engine"
  have h2: "?r = (fst ?r, snd ?r)" by simp
  have v1: "map trailingStopPrice (positions demo_engine) = [97]"
    by (simp add: demo_engine_def demo_buy_def engine_eval)
  have v2: "map trailingStopPrice (positions (fst ?r)) = [1078 / 10]"
    by (simp add: demo_engine_def demo_buy_def engine_eval)
  then have h3: "hd (positions (fst ?r)) \<in> set (positions (fst ?r))"
    by (cases "positions (fst ?r)") auto
  from trailingStop_only_ratchets[OF demo_engine_wf, of 1000] h2 h3 v1 v2
  show ?thesis by blast
qed

subsection \<open>Rejection at the caps\<close>

text \<open>
  Claim C4. When the number of live positions has reached \<^verbatim>\<open>maxPositions\<close>, or the
  symbol of the signal already has three (or more) live positions, \<^verbatim>\<open>addPosition\<close>
  returns the empty string, its rejection, and the engine is unchanged: the same live
  positions, so the same count for the symbol.
\<close>

theorem addPosition_rejects_at_cap:
  assumes "real (length (positions s)) \<ge> maxPositions (config s)
           \<or> length (filter (\<lambda>p. symbol_pos p = symbol_sig signal) (positions s)) \<ge> 3"
  shows "addPosition signal sz signalId now s = Inr ([], s)"
  using assms by (auto simp: addPosition_def)

text \<open>
  Scenario 4 of the specification: three live positions on the symbol, and a fourth call.
\<close>

theorem addPosition_rejects_at_cap_witness:
  "length (filter (\<lambda>p. symbol_pos p = ''BTCUSDT'') (positions demo_engine3)) = 3
   \<and> addPosition demo_buy 1 None 3 demo_engine3 = Inr ([], demo_engine3)"
proof -
  have n: "length (filter (\<lambda>p. symbol_pos p = ''BTCUSDT'') (positions demo_engine3)) = 3"
    by (simp add: demo_engine3_def demo_engine_def demo_buy_def engine_eval)
  then have h: "real (length (positions demo_engine3)) \<ge> maxPositions (config demo_engine3)
      \<or> length (filter (\<lambda>p. symbol_pos p = symbol_sig demo_buy) (positions demo_engine3)) \<ge> 3"
    by (simp add: demo_buy_def)
  from addPosition_rejects_at_cap[OF h] n show ?thesis by simp
qed

subsection \<open>Side of a new position\<close>

text \<open>
  Claim C9. An accepted call of \<^verbatim>\<open>addPosition\<close> (the returned id is not the empty string)
  for a signal whose action is not \<^verbatim>\<open>buy\<close> stores, under the returned id, a position
  whose side is short and whose original signal is that signal.
\<close>

theorem addPosition_non_buy_is_short:
  assumes "addPosition signal sz signalId now s = Inr (k, s')" and "k \<noteq> []"
    and "action signal \<noteq> Buy"
  shows "\<exists>p. lookup_pos k (positions s') = Some p \<and> side p = Short \<and> originalSignal p = signal"
  using addPosition_accepted[OF assms(1,2)] assms(3) by auto

text \<open>
  A \<^verbatim>\<open>hold\<close> signal is accepted and opens a short position.
\<close>

theorem addPosition_non_buy_is_short_witness:
  "addPosition demo_hold 2 (Some ''sig-1'') 5 demo_engine = Inr (''ETHUSDT_5'', demo_engine2)
   \<and> action demo_hold = Hold
   \<and> (\<exists>p. lookup_pos ''ETHUSDT_5'' (positions demo_engine2) = Some p \<and> side p = Short
          \<and> originalSignal p = demo_hold)"
proof -
  have h1: "addPosition demo_hold 2 (Some ''sig-1'') 5 demo_engine = Inr (''ETHUSDT_5'', demo_engine2)"
    by (simp add: demo_engine2_def demo_hold_def demo_engine_def demo_buy_def engine_eval)
  have h2: "''ETHUSDT_5'' \<noteq> []" by simp
  have h3: "action demo_hold \<noteq> Buy" by (simp add: demo_hold_def)
  from addPosition_non_buy_is_short[OF h1 h2 h3] h1 show ?thesis
    by (simp add: demo_hold_def)
qed

subsection \<open>Positions without a price\<close>

text \<open>
  Claim C10. A live position whose symbol has no entry in \<^verbatim>\<open>currentPrices\<close>, or the
  entry 0, is still in the live set after \<^verbatim>\<open>updatePositions\<close>, with every field as it
  was (the same record), and nothing that the tick hands to the persistence service or to
  the exit callbacks concerns it: it is neither updated nor evaluated for an exit.
\<close>

theorem updatePositions_skips_unpriced:
  assumes "wf_engine s" and "p \<in> set (positions s)"
    and "currentPrices (symbol_pos p) = None \<or> currentPrices (symbol_pos p) = Some 0"
    and "updatePositions currentPrices now s = (s', e)"
  shows "p \<in> set (positions s')
         \<and> (\<exists>new. effects s' = effects s @ new
                \<and> (\<forall>x \<in> set new. id_pos (effect_pos x) \<noteq> id_pos p))"
proof -
  have "\<not> truthyPrice currentPrices (symbol_pos p)"
    using assms(3) by (auto simp: truthyPrice_def)
  from forEachPosition_frame[OF assms(1,2) this assms(4)[unfolded updatePositions_def]]
  show ?thesis .
qed

text \<open>
  The witness engine holds a position on BTCUSDT and one on ETHUSDT; the tick carries a
  price for ETHUSDT and the price 0 for BTCUSDT.
\<close>

theorem updatePositions_skips_unpriced_witness:
  "hd (positions demo_engine2) \<in> set (positions (fst (updatePositions [''ETHUSDT'' \<mapsto> 1900, ''BTCUSDT'' \<mapsto> 0] 20000 demo_engine2)))
   \<and> (\<exists>new. effects (fst (updatePositions [''ETHUSDT'' \<mapsto> 1900, ''BTCUSDT'' \<mapsto> 0] 20000 demo_engine2))
              = effects demo_engine2 @ new
          \<and> (\<forall>x \<in> set new. id_pos (effect_pos x) \<noteq> id_pos (hd (positions demo_engine2))))"
proof -
  let ?prc = "[''ETHUSDT'' \<mapsto> 1900, ''BTCUSDT'' \<mapsto> (0::real)]"
  let ?r = "updatePositions ?prc 20000 demo_engine2"
  have ids: "map id_pos (positions demo_engine2) = [''BTCUSDT_0'', ''ETHUSDT_5'']"
    by (simp add: demo_engine2_def demo_hold_def demo_engine_def demo_buy_def engine_eval)
  then have h1: "wf_engine demo_engine2" by (simp add: wf_engine_def)
  from ids have h2: "hd (positions demo_engine2) \<in> set (positions demo_engine2)"
    by (cases "positions demo_engine2") auto
  have "map symbol_pos (positions demo_engine2) = [''BTCUSDT'', ''ETHUSDT'']"
    by (simp add: demo_engine2_def demo_hold_def demo_engine_def demo_buy_def engine_eval)
  then have "symbol_pos (hd (positions demo_engine2)) = ''BTCUSDT''"
    by (cases "positions demo_engine2") auto
  then have h3: "?prc (symbol_pos (hd (positions demo_engine2))) = None
                 \<or> ?prc (symbol_pos (hd (positions demo_engine2))) = Some 0"
    by simp
  have h4: "?r = (fst ?r, snd ?r)" by simp
  from updatePositions_skips_unpriced[OF h1 h2 h3 h4] show ?thesis .
qed

section \<open>Properties of the feature engine\<close>

subsection \<open>The buffers\<close>

lemma updateTicker_wf:
  assumes "wf_features s"
  shows "\<exists>s'. updateTicker entry s = (s', None) \<and> wf_features s'
           \<and> priceHistory s' (fst entry) \<noteq> None
           \<and> (\<forall>k. priceHistory s k \<noteq> None \<longrightarrow> priceHistory s' k \<noteq> None)
           \<and> (\<forall>k. priceCount s' k =
                  (if k = fst entry
                   then (if priceCount s k + 1 > maxHistoryLength then priceCount s k else priceCount s k + 1)
                   else priceCount s k))"
proof (cases "priceHistory s (fst entry)")
  case None
  then show ?thesis using assms
    by (auto simp: updateTicker_def Let_def wf_features_def priceCount_def maxHistoryLength_def)
next
  case (Some ps)
  with assms obtain vs where vs: "volumeHistory s (fst entry) = Some vs"
    by (auto simp: wf_features_def)
  show ?thesis using assms Some vs
    by (auto simp: updateTicker_def Let_def wf_features_def priceCount_def)
qed

lemma capped_push:
  "pc = min c maxHistoryLength \<Longrightarrow>
   (if pc + 1 > maxHistoryLength then pc else pc + 1) = min (c + 1) maxHistoryLength"
  by (auto simp: maxHistoryLength_def)

lemma forEach_updateTicker:
  "wf_features s \<Longrightarrow> (\<forall>k. priceCount s k = min (c k) maxHistoryLength) \<Longrightarrow>
   \<exists>s'. forEachEntry updateTicker tks s = (s', None) \<and> wf_features s'
       \<and> (\<forall>k. priceCount s' k =
              min (c k + length (filter (\<lambda>entry. fst entry = k) tks)) maxHistoryLength)
       \<and> (\<forall>entry \<in> set tks. priceHistory s' (fst entry) \<noteq> None)"
proof (induction tks arbitrary: s c)
  case Nil
  then show ?case by simp
next
  case (Cons entry tks)
  from updateTicker_wf[OF Cons.prems(1), of entry] obtain s1 where
    s1: "updateTicker entry s = (s1, None)" "wf_features s1" "priceHistory s1 (fst entry) \<noteq> None"
      "\<forall>k. priceCount s1 k =
          (if k = fst entry
           then (if priceCount s k + 1 > maxHistoryLength then priceCount s k else priceCount s k + 1)
           else priceCount s k)"
    by blast
  let ?c1 = "\<lambda>k. if k = fst entry then c k + 1 else c k"
  have c1: "\<forall>k. priceCount s1 k = min (?c1 k) maxHistoryLength"
    using s1(4) Cons.prems(2) capped_push by simp
  from Cons.IH[OF s1(2) c1] obtain s' where
    s': "forEachEntry updateTicker tks s1 = (s', None)" "wf_features s'"
      "\<forall>k. priceCount s' k =
          min (?c1 k + length (filter (\<lambda>entry. fst entry = k) tks)) maxHistoryLength"
      "\<forall>entry \<in> set tks. priceHistory s' (fst entry) \<noteq> None"
    by blast
  have kept: "priceHistory s' (fst entry) \<noteq> None"
  proof -
    have "priceCount s1 (fst entry) > 0"
      using s1(4) by (simp add: maxHistoryLength_def)
    then have "?c1 (fst entry) > 0" by simp
    then have "priceCount s' (fst entry) > 0" using s'(3) by (simp add: maxHistoryLength_def)
    then show ?thesis by (auto simp: priceCount_def split: option.splits)
  qed
  have "forEachEntry updateTicker (entry # tks) s = (s', None)" using s1(1) s'(1) by simp
  moreover have "\<forall>k. priceCount s' k =
      min (c k + length (filter (\<lambda>e. fst e = k) (entry # tks))) maxHistoryLength"
    using s'(3) by auto
  ultimately show ?case using s'(2,4) kept by auto
qed

lemma forEach_updateTicker_total:
  "wf_features s \<Longrightarrow>
   \<exists>s'. forEachEntry updateTicker tks s = (s', None) \<and> wf_features s'
       \<and> (\<forall>k. priceHistory s k \<noteq> None \<longrightarrow> priceHistory s' k \<noteq> None)
       \<and> (\<forall>entry \<in> set tks. priceHistory s' (fst entry) \<noteq> None)"
proof (induction tks arbitrary: s)
  case Nil
  then show ?case by simp
next
  case (Cons entry tks)
  from updateTicker_wf[OF Cons.prems, of entry] obtain s1 where
    s1: "updateTicker entry s = (s1, None)" "wf_features s1" "priceHistory s1 (fst entry) \<noteq> None"
      "\<forall>k. priceHistory s k \<noteq> None \<longrightarrow> priceHistory s1 k \<noteq> None"
    by blast
  from Cons.IH[OF s1(2)] obtain s' where
    s': "forEachEntry updateTicker tks s1 = (s', None)" "wf_features s'"
      "\<forall>k. priceHistory s1 k \<noteq> None \<longrightarrow> priceHistory s' k \<noteq> None"
      "\<forall>entry \<in> set tks. priceHistory s' (fst entry) \<noteq> None"
    by blast
  have "forEachEntry updateTicker (entry # tks) s = (s', None)" using s1(1) s'(1) by simp
  then show ?case using s1(3,4) s'(2,3,4) by auto
qed

lemma updateOrderBook_frame:
  assumes "updateOrderBook entry s = (s', e)"
  shows "priceHistory s' = priceHistory s \<and> volumeHistory s' = volumeHistory s
         \<and> (\<forall>k. orderBookHistory s k \<noteq> None \<longrightarrow> orderBookHistory s' k \<noteq> None)
         \<and> (e \<noteq> None \<longleftrightarrow> orderBookHistory s (fst entry) = None)"
  using assms
  by (auto simp: updateOrderBook_def Let_def split: option.splits)

lemma forEach_updateOrderBook:
  "forEachEntry updateOrderBook obs s = (s', e) \<Longrightarrow>
   priceHistory s' = priceHistory s \<and> volumeHistory s' = volumeHistory s
   \<and> (\<forall>k. orderBookHistory s k \<noteq> None \<longrightarrow> orderBookHistory s' k \<noteq> None)"
proof (induction obs arbitrary: s)
  case Nil
  then show ?case by simp
next
  case (Cons entry obs)
  obtain s1 e1 where st: "updateOrderBook entry s = (s1, e1)"
    by (cases "updateOrderBook entry s") auto
  note fr = updateOrderBook_frame[OF st]
  show ?case
  proof (cases e1)
    case None
    with Cons.prems st have "forEachEntry updateOrderBook obs s1 = (s', e)" by simp
    from Cons.IH[OF this] fr show ?thesis by auto
  next
    case (Some err)
    with Cons.prems st have "s' = s1" by simp
    with fr show ?thesis by auto
  qed
qed

lemma updateData_invariant:
  assumes "wf_features s" and "\<forall>k. priceCount s k = min (c k) maxHistoryLength"
  shows "wf_features (fst (updateData marketData s))
         \<and> (\<forall>k. priceCount (fst (updateData marketData s)) k =
               min (recordedAfter (UpdateData marketData) k (c k)) maxHistoryLength)"
proof -
  from forEach_updateTicker[OF assms, of "tickers marketData"] obtain s1 where
    s1: "forEachEntry updateTicker (tickers marketData) s = (s1, None)" "wf_features s1"
      "\<forall>k. priceCount s1 k =
          min (c k + length (filter (\<lambda>entry. fst entry = k) (tickers marketData))) maxHistoryLength"
    by blast
  obtain s2 e2 where s2: "forEachEntry updateOrderBook (orderBooks marketData) s1 = (s2, e2)"
    by (cases "forEachEntry updateOrderBook (orderBooks marketData) s1") auto
  note fr = forEach_updateOrderBook[OF s2]
  have "fst (updateData marketData s) = s2" using s1(1) s2 by (simp add: updateData_def)
  moreover have "wf_features s2" using s1(2) fr by (auto simp: wf_features_def)
  moreover have "\<forall>k. priceCount s2 k = priceCount s1 k" using fr by (simp add: priceCount_def)
  ultimately show ?thesis using s1(3) by simp
qed

text \<open>A call that carries only ticker updates creates the buffers and does not raise.\<close>

lemma updateData_tickers_never_raise:
  assumes "wf_features s" and "orderBooks marketData = []"
  shows "snd (updateData marketData s) = None
         \<and> (\<forall>entry \<in> set (tickers marketData).
               priceHistory (fst (updateData marketData s)) (fst entry) \<noteq> None)"
proof -
  obtain s1 e1 where r: "forEachEntry updateTicker (tickers marketData) s = (s1, e1)"
    by (cases "forEachEntry updateTicker (tickers marketData) s") auto
  have "e1 = None \<and> (\<forall>entry \<in> set (tickers marketData). priceHistory s1 (fst entry) \<noteq> None)"
    using forEach_updateTicker_total[OF assms(1), of "tickers marketData"] r by auto
  with r assms(2) show ?thesis by (simp add: updateData_def)
qed

lemma cleanupOldSymbols_invariant:
  assumes "wf_features s" and "\<forall>k. priceCount s k = min (c k) maxHistoryLength"
  shows "wf_features (cleanupOldSymbols activeSymbols s)
         \<and> (\<forall>k. priceCount (cleanupOldSymbols activeSymbols s) k =
               min (recordedAfter (CleanupOldSymbols activeSymbols) k (c k)) maxHistoryLength)"
  using assms
  by (auto simp: cleanupOldSymbols_def wf_features_def priceCount_def split: option.splits)

lemma runFeatureOps_invariant:
  "wf_features s \<Longrightarrow> (\<forall>k. priceCount s k = min (c k) maxHistoryLength) \<Longrightarrow>
   wf_features (runFeatureOps ops s)
   \<and> (\<forall>k. priceCount (runFeatureOps ops s) k = min (recordedFrom (c k) ops k) maxHistoryLength)"
proof (induction ops arbitrary: s c)
  case Nil
  then show ?case by simp
next
  case (Cons op1 ops)
  have step: "wf_features (applyFeatureOp op1 s)
        \<and> (\<forall>k. priceCount (applyFeatureOp op1 s) k = min (recordedAfter op1 k (c k)) maxHistoryLength)"
  proof (cases op1)
    case (UpdateData marketData)
    with updateData_invariant[OF Cons.prems] show ?thesis by simp
  next
    case (CleanupOldSymbols activeSymbols)
    with cleanupOldSymbols_invariant[OF Cons.prems] show ?thesis by simp
  qed
  from Cons.IH[of "applyFeatureOp op1 s" "\<lambda>k. recordedAfter op1 k (c k)"] step
  show ?case by simp
qed

lemma newFeatureEngine_invariant:
  "wf_features newFeatureEngine \<and> (\<forall>k. priceCount newFeatureEngine k = min 0 maxHistoryLength)"
  by (simp add: wf_features_def newFeatureEngine_def priceCount_def)

lemma reachable_features:
  "wf_features (runFeatureOps ops newFeatureEngine)
   \<and> priceCount (runFeatureOps ops newFeatureEngine) symbol = min (recorded ops symbol) maxHistoryLength"
  using runFeatureOps_invariant[of newFeatureEngine "\<lambda>k. 0" ops] newFeatureEngine_invariant
  by (simp add: recorded_def)

subsection \<open>Extraction\<close>

text \<open>Extraction on an engine whose buffers exist together.\<close>

lemma extractFeatures_wf:
  assumes "wf_features s"
  shows "(extractFeatures s symbol now = Inr None \<longleftrightarrow> priceCount s symbol < 10)
         \<and> (10 \<le> priceCount s symbol \<longrightarrow> (\<exists>fs. extractFeatures s symbol now = Inr (Some fs)))"
proof (cases "priceHistory s symbol")
  case None
  then show ?thesis by (simp add: extractFeatures_def priceCount_def)
next
  case (Some prices)
  with assms obtain vs obs where b: "volumeHistory s symbol = Some vs" "orderBookHistory s symbol = Some obs"
    by (auto simp: wf_features_def)
  have "\<exists>x. calculateOFI s symbol = Inr x" using b by (simp add: calculateOFI_def Let_def)
  moreover have "\<exists>x. calculateVPIN s symbol = Inr x" using b Some by (simp add: calculateVPIN_def Let_def)
  ultimately show ?thesis using Some
    by (auto simp: extractFeatures_def priceCount_def)
qed




lemma features_classifyRegime [simp]: "features_r (classifyRegime fs) = fs"
  by (simp add: classifyRegime_def)

subsection \<open>Evaluating the feature engine on concrete histories\<close>

lemmas feature_eval =
  demo_update_def updateData_def updateTicker_def updateOrderBook_def newFeatureEngine_def
  maxHistoryLength_def Let_def




lemma demo_flat_prices:
  "priceHistory (runFeatureOps demo_flat_ops newFeatureEngine) ''BTCUSDT''
     = Some [100, 100, 100, 100, 100, 100, 100, 100, 100, 100]"
  by (simp add: demo_flat_ops_def feature_eval)

lemma demo_flat_volumes:
  "volumeHistory (runFeatureOps demo_flat_ops newFeatureEngine) ''BTCUSDT''
     = Some [1, 1, 1, 1, 1, 1, 1, 1, 1, 1]"
  by (simp add: demo_flat_ops_def feature_eval)

lemma demo_flat_books:
  "orderBookHistory (runFeatureOps demo_flat_ops newFeatureEngine) ''BTCUSDT'' = Some []"
  by (simp add: demo_flat_ops_def feature_eval)

lemma demo_flat_features:
  "extractFeatures (runFeatureOps demo_flat_ops newFeatureEngine) ''BTCUSDT'' 0 =
     Inr (Some \<lparr> vvix = 0, ofi = 0, vpin = 0, correlation = 0, liquidity = 0, volatility = 0,
                 momentum = 0, meanReversion = 0, trend = 0, timestamp_fs = 0 \<rparr>)"
  by (simp add: extractFeatures_def demo_flat_prices demo_flat_volumes demo_flat_books
      calculateVVIX_def calculateOFI_def calculateVPIN_def calculateCorrelation_def
      calculateLiquidity_def calculateVolatility_def calculateMomentum_def
      calculateMeanReversion_def calculateTrend_def standardDeviation_def lastN_def slice_def
      Let_def upt_rec_numeral)









subsection \<open>The guard of ten samples\<close>

text \<open>
  Claim C3. On the engine left by any history of \<^verbatim>\<open>updateData\<close> and
  \<^verbatim>\<open>cleanupOldSymbols\<close> calls on a new engine, \<^verbatim>\<open>extractFeatures\<close> returns \<^verbatim>\<open>null\<close>
  exactly when fewer than ten price samples have been recorded for the symbol, and with
  ten or more it returns a feature set (it neither returns \<^verbatim>\<open>null\<close> nor raises).
\<close>

theorem extractFeatures_none_iff:
  "(extractFeatures (runFeatureOps ops newFeatureEngine) symbol now = Inr None
      \<longleftrightarrow> recorded ops symbol < 10)
   \<and> (10 \<le> recorded ops symbol \<longrightarrow>
        (\<exists>fs. extractFeatures (runFeatureOps ops newFeatureEngine) symbol now = Inr (Some fs)))"
proof -
  have r: "wf_features (runFeatureOps ops newFeatureEngine)"
    "priceCount (runFeatureOps ops newFeatureEngine) symbol = min (recorded ops symbol) maxHistoryLength"
    using reachable_features by blast+
  have "priceCount (runFeatureOps ops newFeatureEngine) symbol < 10 \<longleftrightarrow> recorded ops symbol < 10"
    using r(2) by (auto simp: maxHistoryLength_def)
  with extractFeatures_wf[OF r(1), of symbol now] show ?thesis by auto
qed

text \<open>
  Ten ticks for BTCUSDT give a feature set; the last nine of them alone give \<^verbatim>\<open>null\<close>.
\<close>

theorem extractFeatures_none_iff_witness:
  "recorded demo_flat_ops ''BTCUSDT'' = 10
   \<and> (\<exists>fs. extractFeatures (runFeatureOps demo_flat_ops newFeatureEngine) ''BTCUSDT'' 0 = Inr (Some fs))
   \<and> recorded (tl demo_flat_ops) ''BTCUSDT'' = 9
   \<and> extractFeatures (runFeatureOps (tl demo_flat_ops) newFeatureEngine) ''BTCUSDT'' 0 = Inr None"
proof -
  have a: "recorded demo_flat_ops ''BTCUSDT'' = 10"
    by (simp add: recorded_def demo_flat_ops_def demo_update_def)
  have b: "recorded (tl demo_flat_ops) ''BTCUSDT'' = 9"
    by (simp add: recorded_def demo_flat_ops_def demo_update_def)
  from extractFeatures_none_iff[of demo_flat_ops "''BTCUSDT''" 0]
       extractFeatures_none_iff[of "tl demo_flat_ops" "''BTCUSDT''" 0] a b
  show ?thesis by simp
qed

subsection \<open>Confidence of a regime\<close>




subsection \<open>Unknown symbols\<close>

text \<open>The order-book loop raises on a symbol without buffers and creates none.\<close>

lemma updateOrderBook_unknown_symbol:
  assumes "orderBookHistory s (fst entry) = None"
  shows "updateOrderBook entry s = (s, Some TypeError)"
  using assms by (simp add: updateOrderBook_def)

text \<open>
  Claim C7. The claim says that \<^verbatim>\<open>updateData\<close> creates the buffers of an unknown symbol
  and never raises, for a ticker update and for an order-book snapshot alike. The ticker
  loop does that (\<open>updateData_tickers_never_raise\<close>). The order-book loop does not
  (\<open>updateOrderBook_unknown_symbol\<close>): on a new engine, a call that carries a snapshot for
  a symbol that no ticker has introduced raises a \<^verbatim>\<open>TypeError\<close> and leaves the engine
  without buffers for the symbol.
\<close>

theorem updateData_orderBook_unknown_symbol_raises:
  "updateData demo_depth_only newFeatureEngine = (newFeatureEngine, Some TypeError)"
  by (simp add: demo_depth_only_def updateData_def updateOrderBook_def newFeatureEngine_def)

section \<open>Properties of the orchestrator\<close>

subsection \<open>What a sampler reads\<close>

text \<open>
  A sampler that returns has read a prefix of its draws, and returns the same value on
  every list of draws that begins with that prefix.
\<close>

lemma gammaLoop_prefix:
  "gammaLoop d c rs = Some (out, rest) \<Longrightarrow>
   \<exists>used. rs = used @ rest \<and> (\<forall>rest'. gammaLoop d c (used @ rest') = Some (out, rest'))"
proof (induction "length rs" arbitrary: rs rule: less_induct)
  case less
  have "\<exists>u1 u2 rs1. rs = u1 # u2 # rs1"
  proof (cases rs)
    case Nil
    with less.prems show ?thesis by simp
  next
    case (Cons a t)
    with less.prems show ?thesis by (cases t) auto
  qed
  then obtain u1 u2 rs1 where rs: "rs = u1 # u2 # rs1" by blast
  have skip2: ?case if step: "\<And>t. gammaLoop d c (u1 # u2 # t) = gammaLoop d c t"
  proof -
    from step less.prems rs have "gammaLoop d c rs1 = Some (out, rest)" by simp
    from less.hyps[OF _ this] rs obtain used1 where
      u: "rs1 = used1 @ rest" "\<forall>rest'. gammaLoop d c (used1 @ rest') = Some (out, rest')"
      by auto
    have "rs = (u1 # u2 # used1) @ rest" using rs u(1) by simp
    moreover have "\<forall>rest'. gammaLoop d c ((u1 # u2 # used1) @ rest') = Some (out, rest')"
      using step u(2) by simp
    ultimately show ?thesis by blast
  qed
  have skip3: ?case
    if rs1: "rs1 = u # rs2" and step: "\<And>t. gammaLoop d c (u1 # u2 # u # t) = gammaLoop d c t"
    for u rs2
  proof -
    from step less.prems rs rs1 have "gammaLoop d c rs2 = Some (out, rest)" by simp
    from less.hyps[OF _ this] rs rs1 obtain used2 where
      u: "rs2 = used2 @ rest" "\<forall>rest'. gammaLoop d c (used2 @ rest') = Some (out, rest')"
      by auto
    have "rs = (u1 # u2 # u # used2) @ rest" using rs rs1 u(1) by simp
    moreover have "\<forall>rest'. gammaLoop d c ((u1 # u2 # u # used2) @ rest') = Some (out, rest')"
      using step u(2) by simp
    ultimately show ?thesis by blast
  qed
  have take3: ?case
    if rs1: "rs1 = u # rs2" and step: "\<And>t. gammaLoop d c (u1 # u2 # u # t) = Some (y, t)"
    for u rs2 y
  proof -
    from step less.prems rs rs1 have "out = y" "rest = rs2" by simp_all
    then have "rs = [u1, u2, u] @ rest" using rs rs1 by simp
    moreover have "\<forall>rest'. gammaLoop d c ([u1, u2, u] @ rest') = Some (out, rest')"
      using step \<open>out = y\<close> by simp
    ultimately show ?thesis by blast
  qed
  show ?case
  proof (cases "boxMuller u1 u2")
    case MinusInfinity
    then show ?thesis by (intro skip2) simp
  next
    case PlusInfinity
    with less.prems rs obtain u rs2 where rs1: "rs1 = u # rs2" by (cases rs1) auto
    from PlusInfinity show ?thesis by (intro skip3[OF rs1]) simp
  next
    case NotANumber
    with less.prems rs obtain u rs2 where rs1: "rs1 = u # rs2" by (cases rs1) auto
    from NotANumber show ?thesis by (intro skip3[OF rs1]) simp
  next
    case (Finite x)
    let ?v = "1 + c * x"
    show ?thesis
    proof (cases "?v \<le> 0")
      case True
      with Finite show ?thesis by (intro skip2) (simp add: Let_def)
    next
      case False
      with less.prems rs Finite obtain u rs2 where rs1: "rs1 = u # rs2"
        by (cases rs1) (auto simp: Let_def)
      let ?v3 = "?v * ?v * ?v"
      show ?thesis
      proof (cases "u < 1 - 0.0331 * x * x * x * x
                    \<or> u = 0 \<or> ln u < 0.5 * x * x + d * (1 - ?v3 + ln ?v3)")
        case True
        with Finite False show ?thesis
          by (intro take3[OF rs1, of "d * ?v3"]) (auto simp: Let_def)
      next
        case reject: False
        with Finite False show ?thesis
          by (intro skip3[OF rs1]) (auto simp: Let_def)
      qed
    qed
  qed
qed

lemma gammaSample_prefix:
  "gammaSample shape rs = Some (out, rest) \<Longrightarrow>
   \<exists>used. rs = used @ rest \<and> (\<forall>rest'. gammaSample shape (used @ rest') = Some (out, rest'))"
proof (induction shape rs arbitrary: out rest rule: gammaSample.induct)
  case (1 shape rs)
  show ?case
  proof (cases "shape < 1")
    case True
    with "1.prems" obtain g u where
      g: "gammaSample (shape + 1) rs = Some (g, u # rest)"
         "out = g * (if shape = 0 then 0 else u powr (1 / shape))"
      by (subst (asm) gammaSample.simps) (auto split: option.splits list.splits)
    from "1.IH"[OF True g(1)] obtain used1 where
      u1: "rs = used1 @ u # rest"
          "\<forall>rest'. gammaSample (shape + 1) (used1 @ rest') = Some (g, rest')" by blast
    have "rs = (used1 @ [u]) @ rest" using u1(1) by simp
    moreover have "\<forall>rest'. gammaSample shape ((used1 @ [u]) @ rest') = Some (out, rest')"
    proof
      fix rest'
      have "gammaSample (shape + 1) (used1 @ u # rest') = Some (g, u # rest')" using u1(2) by blast
      then show "gammaSample shape ((used1 @ [u]) @ rest') = Some (out, rest')"
        using True g(2) by (subst gammaSample.simps) simp
    qed
    ultimately show ?thesis by blast
  next
    case False
    with "1.prems" have "gammaLoop (shape - 1 / 3) (1 / sqrt (9 * (shape - 1 / 3))) rs = Some (out, rest)"
      by (subst (asm) gammaSample.simps) (simp add: Let_def)
    from gammaLoop_prefix[OF this] False show ?thesis
      by (subst gammaSample.simps) (simp add: Let_def)
  qed
qed

lemma betaSample_prefix:
  assumes "betaSample a b rs = Some (out, rest)"
  shows "\<exists>used. rs = used @ rest \<and> (\<forall>rest'. betaSample a b (used @ rest') = Some (out, rest'))"
proof -
  from assms obtain g1 rs1 g2 where
    g: "gammaSample a rs = Some (g1, rs1)" "gammaSample b rs1 = Some (g2, rest)"
       "out = g1 / (g1 + g2)"
    by (auto simp: betaSample_def split: option.splits)
  from gammaSample_prefix[OF g(1)] obtain used1 where
    u1: "rs = used1 @ rs1" "\<forall>rest'. gammaSample a (used1 @ rest') = Some (g1, rest')" by blast
  from gammaSample_prefix[OF g(2)] obtain used2 where
    u2: "rs1 = used2 @ rest" "\<forall>rest'. gammaSample b (used2 @ rest') = Some (g2, rest')" by blast
  have "rs = (used1 @ used2) @ rest" using u1(1) u2(1) by simp
  moreover have "\<forall>rest'. betaSample a b ((used1 @ used2) @ rest') = Some (out, rest')"
    using u1(2) u2(2) g(3) by (simp add: betaSample_def)
  ultimately show ?thesis by blast
qed

lemma sampleArms_prefix:
  "sampleArms features regime arms rs = Some (out, rest) \<Longrightarrow>
   \<exists>used. rs = used @ rest
        \<and> (\<forall>rest'. sampleArms features regime arms (used @ rest') = Some (out, rest'))"
proof (induction arms arbitrary: rs out)
  case Nil
  then show ?case by simp
next
  case (Cons arm arms)
  from Cons.prems obtain sample rs1 samples where
    s: "betaSample (alpha arm) (beta arm) rs = Some (sample, rs1)"
       "sampleArms features regime arms rs1 = Some (samples, rest)"
       "out = (strategyId arm, sample * getContextAdjustment (strategyId arm) features regime) # samples"
    by (auto split: option.splits)
  from betaSample_prefix[OF s(1)] obtain used1 where
    u1: "rs = used1 @ rs1"
        "\<forall>rest'. betaSample (alpha arm) (beta arm) (used1 @ rest') = Some (sample, rest')" by blast
  from Cons.IH[OF s(2)] obtain used2 where
    u2: "rs1 = used2 @ rest"
        "\<forall>rest'. sampleArms features regime arms (used2 @ rest') = Some (samples, rest')" by blast
  have "rs = (used1 @ used2) @ rest" using u1(1) u2(1) by simp
  moreover have "\<forall>rest'. sampleArms features regime (arm # arms) ((used1 @ used2) @ rest') = Some (out, rest')"
    using u1(2) u2(2) s(3) by simp
  ultimately show ?case by blast
qed

text \<open>The sampler that has read exactly \<open>sd\<close> reads \<open>sd\<close> again in front of any other draws.\<close>

lemma sampleArms_same_draws:
  assumes "sampleArms features regime arms (sd @ rest) = Some (samples, rest)"
  shows "sampleArms features regime arms (sd @ rest') = Some (samples, rest')"
proof -
  from sampleArms_prefix[OF assms] obtain used where
    u: "sd @ rest = used @ rest"
       "\<forall>rest'. sampleArms features regime arms (used @ rest') = Some (samples, rest')" by blast
  from u(1) have "used = sd" by simp
  with u(2) show ?thesis by simp
qed

subsection \<open>The ranking and the choice\<close>

lemma length_sortSamples: "length (sortSamples samples) = length samples"
  by (simp add: sortSamples_def)

lemma set_sortSamples: "set (sortSamples samples) = set samples"
  by (simp add: sortSamples_def)

text \<open>The first entry of the ranking has the highest adjusted sample.\<close>

lemma sortSamples_first_is_highest:
  assumes "sortSamples samples = best # others"
  shows "best \<in> set samples \<and> (\<forall>entry \<in> set samples. snd entry \<le> snd best)"
proof -
  have "sorted (map (\<lambda>entry. - snd entry) (sortSamples samples))"
    by (simp add: sortSamples_def)
  with assms have "\<forall>entry \<in> set others. - snd best \<le> - snd entry" by simp
  moreover have "set samples = insert best (set others)"
    using set_sortSamples[of samples] assms by simp
  ultimately show ?thesis by auto
qed

text \<open>The choice when the exploration is declined, and when it is taken.\<close>

lemma pickStrategy_declined:
  assumes "rate \<le> u"
  shows "pickStrategy rate ranked (u # rest)
           = Some (case ranked of [] \<Rightarrow> Inl TypeError | best # others \<Rightarrow> Inr (fst best), rest)"
  using assms by (simp add: pickStrategy_def split: list.splits)

lemma pickStrategy_explored:
  assumes "u < rate"
  shows "pickStrategy rate ranked (u # i # rest)
           = Some (if 0 \<le> \<lfloor>i * real (length ranked)\<rfloor> \<and> \<lfloor>i * real (length ranked)\<rfloor> < int (length ranked)
                   then Inr (fst (ranked ! nat \<lfloor>i * real (length ranked)\<rfloor>))
                   else Inl TypeError, rest)"
  using assms by (simp add: pickStrategy_def Let_def)

subsection \<open>Evaluating the sampler on concrete draws\<close>

lemma demo_gamma: "gammaSample 1 (demo_gamma_draws @ rest) = Some (2 / 3, rest)"
  by (simp add: gammaSample.simps demo_gamma_draws_def boxMuller_def Let_def)

lemma demo_beta: "betaSample 1 1 (demo_arm_draws @ rest) = Some (1 / 2, rest)"
  using demo_gamma[of "demo_gamma_draws @ rest"] demo_gamma[of rest]
  by (simp add: betaSample_def demo_arm_draws_def)

lemma demo_sampleArms:
  "sampleArms demo_features demo_regime initializeBandits (demo_sampler_draws @ rest)
     = Some (demo_samples, rest)"
  by (simp add: initializeBandits_def strategyIds_def demo_sampler_draws_def demo_beta
      getContextAdjustment_def demo_features_def demo_regime_def demo_samples_def)

lemma demo_ranking:
  "sortSamples demo_samples
     = [(''trend_following'', 3 / 4), (''contextual_bandits'', 1 / 2), (''momentum'', 9 / 20),
        (''statistical_arbitrage'', 9 / 20), (''swing_trading'', 2 / 5),
        (''mean_reversion'', 7 / 20), (''breakout'', 3 / 10), (''scalping'', 1 / 4)]"
  by (simp add: sortSamples_def demo_samples_def)

lemma demo_select:
  "selectStrategy initializeBandits 0.08 demo_features demo_regime (demo_draws @ rest)
     = Some (Inr ''trend_following'', rest)"
  using demo_sampleArms[of "1 / 2 # rest"]
  by (simp add: selectStrategy_def demo_draws_def demo_ranking pickStrategy_def)

lemma demo_orchestrator_arms:
  "banditArms demo_orchestrator = initializeBandits"
  "explorationRate (config_o demo_orchestrator) = 0.08"
  by (simp_all add: demo_orchestrator_def newOrchestrator_def defaultOrchestratorConfig_def)

lemma demo_signal:
  "executeStrategy ''trend_following'' ''BTCUSDT'' 100 demo_features demo_regime 50000
     = \<lparr> symbol_sig = ''BTCUSDT'', action = Buy, confidence_sig = 19 / 20,
         strategy = ''trend_following'', price_sig = 100, timestamp_sig = 50000,
         reasoning = ''Trend detected: upward (10.000%)'' \<rparr>"
  by (simp add: executeStrategy_def trendFollowingStrategy_def demo_features_def toFixed_def
      showNat.simps digitChar_def Let_def numeral_2_eq_2)

subsection \<open>Two selections on the same sampler draws\<close>

text \<open>
  Claim C8 as stated fails: the draws of the Beta/Gamma sampler do not fix the strategy.
  \<^verbatim>\<open>Math.random()\<close> has no seed in the code, and \<^verbatim>\<open>selectStrategy\<close> calls it again
  after the Beta/Gamma sampler, for the epsilon-greedy choice. On a new orchestrator, with the same features and the same
  regime, two calls whose sampler reads the same 48 draws and computes the same eight
  adjusted samples return \<open>trend_following\<close> when the next draw is 0.5 (no exploration),
  and \<open>scalping\<close> when the next draws are 0.05 (exploration, as 0.05 < 0.08) and 0.99
  (index \<open>\<lfloor>0.99 * 8\<rfloor> = 7\<close> of the ranking).
\<close>

theorem selectStrategy_sampler_draws_counterexample:
  "sampleArms demo_features demo_regime (banditArms demo_orchestrator)
       (demo_sampler_draws @ [1 / 2]) = Some (demo_samples, [1 / 2])
   \<and> sampleArms demo_features demo_regime (banditArms demo_orchestrator)
       (demo_sampler_draws @ [5 / 100, 99 / 100]) = Some (demo_samples, [5 / 100, 99 / 100])
   \<and> selectStrategy (banditArms demo_orchestrator) (explorationRate (config_o demo_orchestrator))
       demo_features demo_regime (demo_sampler_draws @ [1 / 2])
       = Some (Inr ''trend_following'', [])
   \<and> selectStrategy (banditArms demo_orchestrator) (explorationRate (config_o demo_orchestrator))
       demo_features demo_regime (demo_sampler_draws @ [5 / 100, 99 / 100])
       = Some (Inr ''scalping'', [])
   \<and> ''trend_following'' \<noteq> ''scalping''"
  by (simp add: demo_orchestrator_arms selectStrategy_def demo_sampleArms demo_ranking
      pickStrategy_def)

text \<open>
  Claim C8. Take two calls of \<^verbatim>\<open>selectStrategy\<close> on the same orchestrator (the same
  arms and exploration rate) with the same features and regime, whose Beta/Gamma sampler
  reads the same draws \<open>sd\<close> and so computes the same adjusted samples. The draws that
  follow \<open>sd\<close> may differ between the two calls.

  \<^item> If both calls decline the exploration (the draw after \<open>sd\<close> is not below the
    exploration rate, in each call), both return the same result, and a strategy id that
    is returned is the id of an arm whose adjusted sample is the highest.
  \<^item> If both calls explore (the draw after \<open>sd\<close> is below the exploration rate) and
    their index draws give the same index \<open>\<lfloor>i * n\<rfloor>\<close> for the \<open>n\<close> arms, both return the
    same result.

  Each call reads exactly its own draws: \<open>sd\<close> and one more in the first case, \<open>sd\<close> and
  two more in the second.
\<close>

theorem selectStrategy_same_sampler_draws:
  assumes "sampleArms features regime (banditArms s) (sd @ rest) = Some (samples, rest)"
  shows "(\<forall>u1 u2 rest1 rest2.
            explorationRate (config_o s) \<le> u1 \<longrightarrow> explorationRate (config_o s) \<le> u2 \<longrightarrow>
            (\<exists>out. selectStrategy (banditArms s) (explorationRate (config_o s)) features regime
                      (sd @ u1 # rest1) = Some (out, rest1)
                  \<and> selectStrategy (banditArms s) (explorationRate (config_o s)) features regime
                      (sd @ u2 # rest2) = Some (out, rest2)
                  \<and> (\<forall>k. out = Inr k \<longrightarrow>
                        (\<exists>v. (k, v) \<in> set samples \<and> (\<forall>entry \<in> set samples. snd entry \<le> v)))))
         \<and> (\<forall>u1 u2 i1 i2 rest1 rest2.
              u1 < explorationRate (config_o s) \<longrightarrow> u2 < explorationRate (config_o s) \<longrightarrow>
              \<lfloor>i1 * real (length samples)\<rfloor> = \<lfloor>i2 * real (length samples)\<rfloor> \<longrightarrow>
              (\<exists>out. selectStrategy (banditArms s) (explorationRate (config_o s)) features regime
                        (sd @ u1 # i1 # rest1) = Some (out, rest1)
                    \<and> selectStrategy (banditArms s) (explorationRate (config_o s)) features regime
                        (sd @ u2 # i2 # rest2) = Some (out, rest2)))"
proof -
  let ?rate = "explorationRate (config_o s)"
  let ?ranked = "sortSamples samples"
  have sel: "selectStrategy (banditArms s) ?rate features regime (sd @ rest')
               = pickStrategy ?rate ?ranked rest'" for rest'
    using sampleArms_same_draws[OF assms, of rest'] by (simp add: selectStrategy_def)
  let ?best = "case ?ranked of [] \<Rightarrow> Inl TypeError | best # others \<Rightarrow> Inr (fst best)"
  have highest: "\<exists>v. (k, v) \<in> set samples \<and> (\<forall>entry \<in> set samples. snd entry \<le> v)"
    if "?best = Inr k" for k
  proof (cases ?ranked)
    case Nil
    with that show ?thesis by simp
  next
    case (Cons best others)
    with that have k: "k = fst best" by simp
    from sortSamples_first_is_highest[OF Cons]
    have "best \<in> set samples" "\<forall>entry \<in> set samples. snd entry \<le> snd best" by simp_all
    with k show ?thesis by (intro exI[of _ "snd best"]) simp
  qed
  have declined: "\<exists>out. selectStrategy (banditArms s) ?rate features regime (sd @ u1 # rest1)
                           = Some (out, rest1)
                       \<and> selectStrategy (banditArms s) ?rate features regime (sd @ u2 # rest2)
                           = Some (out, rest2)
                       \<and> (\<forall>k. out = Inr k \<longrightarrow>
                            (\<exists>v. (k, v) \<in> set samples \<and> (\<forall>entry \<in> set samples. snd entry \<le> v)))"
    if "?rate \<le> u1" "?rate \<le> u2" for u1 u2 rest1 rest2
    using that highest
    by (intro exI[of _ ?best]) (simp add: sel pickStrategy_declined)
  have explored: "\<exists>out. selectStrategy (banditArms s) ?rate features regime (sd @ u1 # i1 # rest1)
                           = Some (out, rest1)
                       \<and> selectStrategy (banditArms s) ?rate features regime (sd @ u2 # i2 # rest2)
                           = Some (out, rest2)"
    if "u1 < ?rate" "u2 < ?rate"
       "\<lfloor>i1 * real (length samples)\<rfloor> = \<lfloor>i2 * real (length samples)\<rfloor>"
    for u1 u2 i1 i2 rest1 rest2
    using that by (simp add: sel pickStrategy_explored length_sortSamples)
  from declined explored show ?thesis by blast
qed

text \<open>
  On the 48 draws of the concrete sampler run: the calls that continue with 0.5 and with
  0.9 both decline the exploration and both return \<open>trend_following\<close>, whose adjusted
  sample 0.75 is the highest; the calls that continue with 0.05, 0.99 and with 0.01, 0.9
  both explore at index 7 and both return \<open>scalping\<close>.
\<close>

theorem selectStrategy_same_sampler_draws_witness:
  "sampleArms demo_features demo_regime (banditArms demo_orchestrator) (demo_sampler_draws @ [])
     = Some (demo_samples, [])
   \<and> selectStrategy (banditArms demo_orchestrator) (explorationRate (config_o demo_orchestrator))
       demo_features demo_regime (demo_sampler_draws @ [1 / 2]) = Some (Inr ''trend_following'', [])
   \<and> selectStrategy (banditArms demo_orchestrator) (explorationRate (config_o demo_orchestrator))
       demo_features demo_regime (demo_sampler_draws @ [9 / 10, 1 / 3])
       = Some (Inr ''trend_following'', [1 / 3])
   \<and> (\<exists>v. (''trend_following'', v) \<in> set demo_samples \<and> (\<forall>entry \<in> set demo_samples. snd entry \<le> v))
   \<and> selectStrategy (banditArms demo_orchestrator) (explorationRate (config_o demo_orchestrator))
       demo_features demo_regime (demo_sampler_draws @ [5 / 100, 99 / 100])
       = Some (Inr ''scalping'', [])
   \<and> selectStrategy (banditArms demo_orchestrator) (explorationRate (config_o demo_orchestrator))
       demo_features demo_regime (demo_sampler_draws @ [1 / 100, 9 / 10, 1 / 3])
       = Some (Inr ''scalping'', [1 / 3])"
proof -
  let ?select = "selectStrategy (banditArms demo_orchestrator)
                   (explorationRate (config_o demo_orchestrator)) demo_features demo_regime"
  have run: "sampleArms demo_features demo_regime (banditArms demo_orchestrator)
               (demo_sampler_draws @ []) = Some (demo_samples, [])"
    using demo_sampleArms[of "[]"] by (simp add: demo_orchestrator_arms)
  note both = selectStrategy_same_sampler_draws[OF run]
  have first: "?select (demo_sampler_draws @ [1 / 2]) = Some (Inr ''trend_following'', [])"
    by (simp add: demo_orchestrator_arms selectStrategy_def demo_sampleArms demo_ranking
        pickStrategy_def)
  have rate: "explorationRate (config_o demo_orchestrator) \<le> 1 / 2"
             "explorationRate (config_o demo_orchestrator) \<le> 9 / 10"
             "5 / 100 < explorationRate (config_o demo_orchestrator)"
             "1 / 100 < explorationRate (config_o demo_orchestrator)"
    by (simp_all add: demo_orchestrator_arms)
  from both[THEN conjunct1, rule_format, of "1 / 2" "9 / 10" "[]" "[1 / 3]", OF rate(1) rate(2)]
  obtain out where
    d: "?select (demo_sampler_draws @ [1 / 2]) = Some (out, [])"
       "?select (demo_sampler_draws @ [9 / 10, 1 / 3]) = Some (out, [1 / 3])"
       "\<forall>k. out = Inr k \<longrightarrow>
          (\<exists>v. (k, v) \<in> set demo_samples \<and> (\<forall>entry \<in> set demo_samples. snd entry \<le> v))"
    by (elim exE conjE)
  from d(1) first have out: "out = Inr ''trend_following''" by simp
  from d(2) out
  have second: "?select (demo_sampler_draws @ [9 / 10, 1 / 3])
                  = Some (Inr ''trend_following'', [1 / 3])" by simp
  from d(3)[rule_format, OF out]
  have high: "\<exists>v. (''trend_following'', v) \<in> set demo_samples
                  \<and> (\<forall>entry \<in> set demo_samples. snd entry \<le> v)" .
  have third: "?select (demo_sampler_draws @ [5 / 100, 99 / 100]) = Some (Inr ''scalping'', [])"
    by (simp add: demo_orchestrator_arms selectStrategy_def demo_sampleArms demo_ranking
        pickStrategy_def)
  have index: "\<lfloor>99 / 100 * real (length demo_samples)\<rfloor>
                 = \<lfloor>9 / 10 * real (length demo_samples)\<rfloor>"
    by (simp add: demo_samples_def)
  from both[THEN conjunct2, rule_format, of "5 / 100" "1 / 100" "99 / 100" "9 / 10" "[]" "[1 / 3]",
            OF rate(3) rate(4) index]
  obtain out' where
    e: "?select (demo_sampler_draws @ [5 / 100, 99 / 100]) = Some (out', [])"
       "?select (demo_sampler_draws @ [1 / 100, 9 / 10, 1 / 3]) = Some (out', [1 / 3])"
    by (elim exE conjE)
  from e(1) third have out': "out' = Inr ''scalping''" by simp
  from e(2) out'
  have fourth: "?select (demo_sampler_draws @ [1 / 100, 9 / 10, 1 / 3])
                  = Some (Inr ''scalping'', [1 / 3])" by simp
  show ?thesis by (intro conjI) (fact run first second high third fourth)+
qed

subsection \<open>Failure of the persistence of a signal\<close>

text \<open>
  Claim C5. \<open>saveResult\<close> is \<^verbatim>\<open>null\<close> or the empty id: the persistence of the new
  signal has failed. Then a call of \<^verbatim>\<open>generateSignal\<close> that returns leaves the
  orchestrator as it was, with its recent signals and its last-signal times, and returns
  \<^verbatim>\<open>null\<close> (unless the strategy selection raised); and it does return \<^verbatim>\<open>null\<close> with the
  orchestrator unchanged whenever the strategy selection returns a strategy.
\<close>

theorem generateSignal_persistence_failure:
  assumes "saveResult = None \<or> saveResult = Some []"
  shows "(\<forall>out. generateSignal saveResult symbol price features regime now nowAfter rs s = Some out
            \<longrightarrow> (\<exists>e. out = Inl e) \<or> out = Inr (None, s))
         \<and> (\<forall>sid rs1. selectStrategy (banditArms s) (explorationRate (config_o s)) features regime rs
                         = Some (Inr sid, rs1)
            \<longrightarrow> generateSignal saveResult symbol price features regime now nowAfter rs s
                  = Some (Inr (None, s)))"
  using assms
  by (auto simp: generateSignal_def Let_def split: option.splits sum.splits)

text \<open>
  A signal of confidence 0.95 passes the threshold. When its save fails the call returns
  \<^verbatim>\<open>null\<close> and the orchestrator is unchanged; when the save returns an id the same call
  returns the signal with that id.
\<close>

theorem generateSignal_persistence_failure_witness:
  "generateSignal None ''BTCUSDT'' 100 demo_features demo_regime 50000 50400 demo_draws demo_orchestrator
     = Some (Inr (None, demo_orchestrator))
   \<and> map_option (map_sum id fst)
       (generateSignal (Some ''sig-1'') ''BTCUSDT'' 100 demo_features demo_regime 50000 50400
          demo_draws demo_orchestrator)
       = Some (Inr (Some (executeStrategy ''trend_following'' ''BTCUSDT'' 100 demo_features
                            demo_regime 50000, ''sig-1'')))"
proof -
  have sel: "selectStrategy (banditArms demo_orchestrator) (explorationRate (config_o demo_orchestrator))
               demo_features demo_regime demo_draws = Some (Inr ''trend_following'', [])"
    using demo_select[of "[]"]
    by (simp add: demo_orchestrator_def newOrchestrator_def defaultOrchestratorConfig_def)
  have fail: "(None :: string option) = None \<or> (None :: string option) = Some []" by simp
  from generateSignal_persistence_failure[OF fail, of "''BTCUSDT''" 100 demo_features demo_regime
         50000 50400 demo_draws demo_orchestrator] sel
  have a: "generateSignal None ''BTCUSDT'' 100 demo_features demo_regime 50000 50400 demo_draws
             demo_orchestrator = Some (Inr (None, demo_orchestrator))"
    by blast
  have open_gate: "\<not> cooldownActive demo_orchestrator ''BTCUSDT'' 50000"
    "\<not> tooManyRecentSignals demo_orchestrator ''BTCUSDT'' 50000"
    by (simp_all add: cooldownActive_def tooManyRecentSignals_def demo_orchestrator_def
        newOrchestrator_def defaultOrchestratorConfig_def)
  have b: "map_option (map_sum id fst)
       (generateSignal (Some ''sig-1'') ''BTCUSDT'' 100 demo_features demo_regime 50000 50400
          demo_draws demo_orchestrator)
       = Some (Inr (Some (executeStrategy ''trend_following'' ''BTCUSDT'' 100 demo_features
                            demo_regime 50000, ''sig-1'')))"
    using sel open_gate
    by (simp add: generateSignal_def demo_signal Let_def)
       (simp add: demo_orchestrator_def newOrchestrator_def defaultOrchestratorConfig_def)
  from a b show ?thesis by simp
qed

end
